theory Spec2Isabelle
  imports Complex_Main "HOL-Library.AList" "HOL-Library.Multiset"
    "HOL-Library.Char_ord" "HOL-Library.List_Lexorder"
begin

section \<open>Values exchanged with the remote catalog\<close>

text \<open>
  The tools of the server receive decoded JSON documents from the Explore API and turn
  them into text. A decoded document is a Python value: \<open>None\<close>, a boolean, an \<open>int\<close>,
  a \<open>float\<close>, a \<open>str\<close>, a \<open>list\<close> or a \<open>dict\<close>. A \<open>dict\<close> keeps its keys in insertion
  order and has every key once, so it is an association list read with \<open>map_of\<close>.
  A Python string is a list of characters, one \<open>char\<close> for each code point, and numbers
  are exact rationals: the rounding of binary floating point is not part of the model.
\<close>

datatype json =
    JNull
  | JBool bool
  | JInt int
  | JFloat rat
  | JStr string
  | JArr "json list"
  | JObj "(string \<times> json) list"

type_synonym dict = "(string \<times> json) list"

text \<open>An exception is its class and the text that \<open>str(e)\<close> gives.\<close>

datatype exn_class =
  HTTPError | AttributeError | TypeError | IndexError | KeyError

datatype error = Raised exn_class string

fun exn_text :: "error \<Rightarrow> string" where
  "exn_text (Raised c msg) = msg"

text \<open>
  Five functions of the Python library are parameters of the model, since what they
  print for a \<open>float\<close> or for a nested value is fixed by the interpreter and not by this
  repository: \<open>str\<close> of a float, \<open>str\<close> of a list or dict, \<open>json.dumps\<close> with
  \<open>ensure_ascii=False\<close>, and the format \<open>:.2f\<close>. The last field is
  \<open>sorted(xs, key=..., reverse=True)\<close> for keys that are not all numbers: it takes the
  keys and the items and gives the sorted items or the \<open>TypeError\<close> of a comparison
  that the interpreter does not support.
\<close>

record pylib =
  float_str :: "rat \<Rightarrow> string"
  container_str :: "json \<Rightarrow> string"
  json_dumps :: "json \<Rightarrow> string"
  format_2f :: "rat \<Rightarrow> string"
  sorted_other :: "json list \<Rightarrow> json list \<Rightarrow> error + json list"

subsection \<open>Strings and numbers\<close>

definition dquote :: char where
  "dquote = CHR 0x22"

definition newline :: char where
  "newline = CHR 0x0A"

text \<open>\<open>sep.join(xs)\<close>\<close>

fun join_str :: "string \<Rightarrow> string list \<Rightarrow> string" where
  "join_str sep [] = []"
| "join_str sep [x] = x"
| "join_str sep (x # y # ys) = x @ sep @ join_str sep (y # ys)"

fun show_nat :: "nat \<Rightarrow> string" where
  "show_nat n =
     (if n < 10 then [''0123456789'' ! n]
      else show_nat (n div 10) @ [''0123456789'' ! (n mod 10)])"

declare show_nat.simps [simp del]

definition show_int :: "int \<Rightarrow> string" where
  "show_int i = (if i < 0 then CHR ''-'' # show_nat (nat (- i)) else show_nat (nat i))"

text \<open>
  \<open>s.replace(old, new)\<close> for a non-empty \<open>old\<close>: the occurrences are found from the
  left and do not overlap.
\<close>

function py_replace :: "string \<Rightarrow> string \<Rightarrow> string \<Rightarrow> string" where
  "py_replace old new [] = []"
| "py_replace old new (c # cs) =
     (if old \<noteq> [] \<and> take (length old) (c # cs) = old
      then new @ py_replace old new (drop (length old) (c # cs))
      else c # py_replace old new cs)"
  by pat_completeness auto
termination
  by (relation "measure (\<lambda>(old, new, s). length s)") auto

subsection \<open>The dynamic operations of Python on decoded values\<close>

fun type_name :: "json \<Rightarrow> string" where
  "type_name JNull = ''NoneType''"
| "type_name (JBool b) = ''bool''"
| "type_name (JInt i) = ''int''"
| "type_name (JFloat r) = ''float''"
| "type_name (JStr s) = ''str''"
| "type_name (JArr xs) = ''list''"
| "type_name (JObj kvs) = ''dict''"

text \<open>Truth value of a value in a condition (\<open>if v\<close>, \<open>not v\<close>).\<close>

fun py_truthy :: "json \<Rightarrow> bool" where
  "py_truthy JNull = False"
| "py_truthy (JBool b) = b"
| "py_truthy (JInt i) = (i \<noteq> 0)"
| "py_truthy (JFloat r) = (r \<noteq> 0)"
| "py_truthy (JStr s) = (s \<noteq> [])"
| "py_truthy (JArr xs) = (xs \<noteq> [])"
| "py_truthy (JObj kvs) = (kvs \<noteq> [])"

text \<open>\<open>str(v)\<close>, which is also what an f-string prints for \<open>{v}\<close>.\<close>

fun py_str :: "pylib \<Rightarrow> json \<Rightarrow> string" where
  "py_str lib JNull = ''None''"
| "py_str lib (JBool b) = (if b then ''True'' else ''False'')"
| "py_str lib (JInt i) = show_int i"
| "py_str lib (JFloat r) = float_str lib r"
| "py_str lib (JStr s) = s"
| "py_str lib (JArr xs) = container_str lib (JArr xs)"
| "py_str lib (JObj kvs) = container_str lib (JObj kvs)"

text \<open>\<open>isinstance(v, (int, float))\<close>: \<open>bool\<close> is a subclass of \<open>int\<close>.\<close>

fun is_number :: "json \<Rightarrow> bool" where
  "is_number (JBool b) = True"
| "is_number (JInt i) = True"
| "is_number (JFloat r) = True"
| "is_number v = False"

fun num_val :: "json \<Rightarrow> rat" where
  "num_val (JBool b) = (if b then 1 else 0)"
| "num_val (JInt i) = of_int i"
| "num_val (JFloat r) = r"
| "num_val v = 0"

text \<open>\<open>d.get(key, default)\<close> on a dict.\<close>

definition dict_get :: "dict \<Rightarrow> string \<Rightarrow> json \<Rightarrow> json" where
  "dict_get d k dflt = (case map_of d k of None \<Rightarrow> dflt | Some v \<Rightarrow> v)"

text \<open>\<open>v.get(key, default)\<close> on any value: only a dict has the method.\<close>

fun py_get :: "json \<Rightarrow> string \<Rightarrow> json \<Rightarrow> error + json" where
  "py_get (JObj d) k dflt = Inr (dict_get d k dflt)"
| "py_get v k dflt =
     Inl (Raised AttributeError
       ([CHR 0x27] @ type_name v @ [CHR 0x27] @ '' object has no attribute '' @
        [CHR 0x27] @ ''get'' @ [CHR 0x27]))"

text \<open>\<open>v[0]\<close>\<close>

fun py_item0 :: "json \<Rightarrow> error + json" where
  "py_item0 (JArr []) = Inl (Raised IndexError ''list index out of range'')"
| "py_item0 (JArr (x # xs)) = Inr x"
| "py_item0 (JStr []) = Inl (Raised IndexError ''string index out of range'')"
| "py_item0 (JStr (c # cs)) = Inr (JStr [c])"
| "py_item0 (JObj d) = Inl (Raised KeyError ''0'')"
| "py_item0 v =
     Inl (Raised TypeError
       ([CHR 0x27] @ type_name v @ [CHR 0x27] @ '' object is not subscriptable''))"

text \<open>The items a \<open>for\<close> loop visits: a dict yields its keys, a string its characters.\<close>

fun py_iter :: "json \<Rightarrow> error + json list" where
  "py_iter (JArr xs) = Inr xs"
| "py_iter (JObj d) = Inr (map (\<lambda>kv. JStr (fst kv)) d)"
| "py_iter (JStr s) = Inr (map (\<lambda>c. JStr [c]) s)"
| "py_iter v =
     Inl (Raised TypeError
       ([CHR 0x27] @ type_name v @ [CHR 0x27] @ '' object is not iterable''))"

text \<open>\<open>len(v)\<close>\<close>

fun py_len :: "json \<Rightarrow> error + nat" where
  "py_len (JArr xs) = Inr (length xs)"
| "py_len (JObj d) = Inr (length d)"
| "py_len (JStr s) = Inr (length s)"
| "py_len v =
     Inl (Raised TypeError
       (''object of type '' @ [CHR 0x27] @ type_name v @ [CHR 0x27] @ '' has no len()''))"

text \<open>Sequencing of steps that may raise: the first exception ends the rest.\<close>

fun bind_err :: "error + 'a \<Rightarrow> ('a \<Rightarrow> error + 'b) \<Rightarrow> error + 'b" where
  "bind_err (Inl e) f = Inl e"
| "bind_err (Inr x) f = f x"

text \<open>\<open>enumerate(xs, 1)\<close>\<close>

definition enumerate1 :: "'a list \<Rightarrow> (nat \<times> 'a) list" where
  "enumerate1 xs = enumerate 1 xs"

subsection \<open>An instance of the library functions\<close>

text \<open>
  To run the model on examples the library functions need an instance. This one prints
  a number from its exact decimal expansion (at most 17 digits after the point), the
  format \<open>:.2f\<close> by rounding the exact value to the nearest hundredth, halves to even,
  and nested values as \<open>json.dumps\<close> and \<open>repr\<close> print them when their strings hold no
  quote, backslash or control character. It agrees with the
  interpreter on integers, on such strings and on numbers that binary floating point
  holds exactly, which is all that the examples below print.
\<close>

fun frac_digits :: "nat \<Rightarrow> rat \<Rightarrow> string" where
  "frac_digits 0 x = []"
| "frac_digits (Suc n) x =
     (let d = nat \<lfloor>x * 10\<rfloor>; r = x * 10 - of_nat d
      in (''0123456789'' ! d) # (if r = 0 then [] else frac_digits n r))"

definition decimal_str :: "rat \<Rightarrow> string" where
  "decimal_str r =
     (if r < 0 then ''-'' else []) @ show_nat (nat \<lfloor>\<bar>r\<bar>\<rfloor>) @ ''.'' @
     frac_digits 17 (\<bar>r\<bar> - of_int \<lfloor>\<bar>r\<bar>\<rfloor>)"

definition round_half_even :: "rat \<Rightarrow> int" where
  "round_half_even x =
     (let f = \<lfloor>x\<rfloor>; d = x - of_int f
      in if d < 1 / 2 then f else if 1 / 2 < d then f + 1 else if even f then f else f + 1)"

definition fixed2 :: "rat \<Rightarrow> string" where
  "fixed2 r =
     (let n = nat (round_half_even (\<bar>r\<bar> * 100))
      in (if r < 0 then ''-'' else []) @ show_nat (n div 100) @ ''.'' @
         [''0123456789'' ! ((n div 10) mod 10), ''0123456789'' ! (n mod 10)])"

fun escape_json :: "string \<Rightarrow> string" where
  "escape_json [] = []"
| "escape_json (c # cs) =
     (if c = CHR 0x22 then [CHR 0x5C, CHR 0x22]
      else if c = CHR 0x5C then [CHR 0x5C, CHR 0x5C]
      else if c = CHR 0x0A then [CHR 0x5C, CHR ''n'']
      else [c]) @ escape_json cs"

fun json_text :: "json \<Rightarrow> string" where
  "json_text JNull = ''null''"
| "json_text (JBool b) = (if b then ''true'' else ''false'')"
| "json_text (JInt i) = show_int i"
| "json_text (JFloat r) = decimal_str r"
| "json_text (JStr s) = [CHR 0x22] @ escape_json s @ [CHR 0x22]"
| "json_text (JArr xs) = ''['' @ join_str '', '' (map json_text xs) @ '']''"
| "json_text (JObj kvs) =
     ''{'' @ join_str '', ''
       (map (\<lambda>(k, v). [CHR 0x22] @ escape_json k @ [CHR 0x22] @ '': '' @ json_text v) kvs) @
     ''}''"

fun repr_text :: "json \<Rightarrow> string" where
  "repr_text JNull = ''None''"
| "repr_text (JBool b) = (if b then ''True'' else ''False'')"
| "repr_text (JInt i) = show_int i"
| "repr_text (JFloat r) = decimal_str r"
| "repr_text (JStr s) = [CHR 0x27] @ s @ [CHR 0x27]"
| "repr_text (JArr xs) = ''['' @ join_str '', '' (map repr_text xs) @ '']''"
| "repr_text (JObj kvs) =
     ''{'' @ join_str '', ''
       (map (\<lambda>(k, v). [CHR 0x27] @ k @ [CHR 0x27] @ '': '' @ repr_text v) kvs) @ ''}''"

text \<open>
  Sorting on keys that are not all numbers: string keys are ordered by code point, in
  descending order, equal keys staying in their order; any other mix of keys fails at
  the first comparison, which with \<open>reverse=True\<close> is between the last two keys.
\<close>

fun is_string :: "json \<Rightarrow> bool" where
  "is_string (JStr s) = True"
| "is_string v = False"

fun str_val :: "json \<Rightarrow> string" where
  "str_val (JStr s) = s"
| "str_val v = []"

definition first_compare_error :: "json list \<Rightarrow> string" where
  "first_compare_error ks =
     (case rev ks of
        a # b # rest \<Rightarrow>
          [CHR 0x27] @ ''<'' @ [CHR 0x27] @ '' not supported between instances of '' @
          [CHR 0x27] @ type_name b @ [CHR 0x27] @ '' and '' @
          [CHR 0x27] @ type_name a @ [CHR 0x27]
      | _ \<Rightarrow> [])"

definition example_sorted :: "json list \<Rightarrow> json list \<Rightarrow> error + json list" where
  "example_sorted ks xs =
     (if length xs \<le> 1 then Inr xs
      else if list_all is_string ks
      then Inr (map snd (rev (sort_key (\<lambda>p. str_val (fst p)) (rev (zip ks xs)))))
      else Inl (Raised TypeError (first_compare_error ks)))"

definition example_lib :: pylib where
  "example_lib =
     \<lparr> float_str = decimal_str, container_str = repr_text, json_dumps = json_text,
       format_2f = fixed2, sorted_other = example_sorted \<rparr>"

section \<open>The API client (\<open>ods_api.py\<close>)\<close>

text \<open>
  A request is the path below \<open>/api/explore/v2.1\<close> and the query parameters, a dict in
  insertion order. The transport (\<open>_make_request\<close>) is a function from requests to a
  decoded dict or the exception it raises; every call is appended to a log.
\<close>

datatype pval = PInt int | PStr string | PList "string list"

type_synonym params = "(string \<times> pval) list"

datatype request = Request string "params option"

type_synonym http = "request \<Rightarrow> error + dict"

definition call :: "http \<Rightarrow> request \<Rightarrow> request list \<Rightarrow> (error + dict) \<times> request list" where
  "call api rq lg = (api rq, lg @ [rq])"

text \<open>\<open>if s:\<close> for an optional string: absent and empty both count as not given.\<close>

fun given :: "string option \<Rightarrow> bool" where
  "given None = False"
| "given (Some s) = (s \<noteq> [])"

fun set_if_given :: "string \<Rightarrow> string option \<Rightarrow> params \<Rightarrow> params" where
  "set_if_given k None ps = ps"
| "set_if_given k (Some s) ps = (if s \<noteq> [] then AList.update k (PStr s) ps else ps)"

fun clause_if_given :: "(string \<Rightarrow> string) \<Rightarrow> string option \<Rightarrow> string list" where
  "clause_if_given f None = []"
| "clause_if_given f (Some s) = (if s \<noteq> [] then [f s] else [])"

definition list_datasets_params ::
  "string option \<Rightarrow> string option \<Rightarrow> string option \<Rightarrow> string option \<Rightarrow> int \<Rightarrow> int \<Rightarrow> params"
where
  "list_datasets_params search publisher theme wher limit offset =
     (let params0 = [(''limit'', PInt limit), (''offset'', PInt offset)];
          where_clauses =
            clause_if_given (\<lambda>w. w) wher @
            clause_if_given (\<lambda>p. ''publisher='' @ [dquote] @ p @ [dquote]) publisher @
            clause_if_given (\<lambda>t. ''theme='' @ [dquote] @ t @ [dquote]) theme;
          params1 =
            (if where_clauses \<noteq> []
             then AList.update ''where'' (PStr (join_str '' AND '' where_clauses)) params0
             else params0)
      in case search of
           None \<Rightarrow> params1
         | Some s \<Rightarrow>
             if s \<noteq> [] then
               AList.update ''where''
                 (PStr ([dquote] @ s @ [dquote] @
                    (case map_of params1 ''where'' of
                       Some (PStr w) \<Rightarrow> '' AND '' @ w
                     | _ \<Rightarrow> [])))
                 params1
             else params1)"

definition list_datasets ::
  "http \<Rightarrow> string option \<Rightarrow> string option \<Rightarrow> string option \<Rightarrow> string option \<Rightarrow> int \<Rightarrow> int \<Rightarrow>
   request list \<Rightarrow> (error + dict) \<times> request list"
where
  "list_datasets api search publisher theme wher limit offset =
     call api (Request ''/catalog/datasets''
       (Some (list_datasets_params search publisher theme wher limit offset)))"

definition get_dataset :: "http \<Rightarrow> string \<Rightarrow> request list \<Rightarrow> (error + dict) \<times> request list" where
  "get_dataset api dataset_id = call api (Request (''/catalog/datasets/'' @ dataset_id) None)"

definition records_params ::
  "string option \<Rightarrow> string option \<Rightarrow> string option \<Rightarrow> string option \<Rightarrow> int \<Rightarrow> int \<Rightarrow> params"
where
  "records_params select wher group_by order_by limit offset =
     set_if_given ''order_by'' order_by
       (set_if_given ''group_by'' group_by
         (set_if_given ''where'' wher
           (set_if_given ''select'' select
             [(''limit'', PInt limit), (''offset'', PInt offset)])))"

definition api_get_dataset_records ::
  "http \<Rightarrow> string \<Rightarrow> string option \<Rightarrow> string option \<Rightarrow> string option \<Rightarrow> string option \<Rightarrow>
   int \<Rightarrow> int \<Rightarrow> request list \<Rightarrow> (error + dict) \<times> request list"
where
  "api_get_dataset_records api dataset_id select wher group_by order_by limit offset =
     call api (Request (''/catalog/datasets/'' @ dataset_id @ ''/records'')
       (Some (records_params select wher group_by order_by limit offset)))"

definition get_dataset_facets ::
  "http \<Rightarrow> string \<Rightarrow> string list \<Rightarrow> string option \<Rightarrow> request list \<Rightarrow>
   (error + dict) \<times> request list"
where
  "get_dataset_facets api dataset_id facet wher =
     call api (Request (''/catalog/datasets/'' @ dataset_id @ ''/facets'')
       (Some (set_if_given ''where'' wher [(''facet'', PList facet)])))"

definition api_search_datasets ::
  "http \<Rightarrow> string \<Rightarrow> int \<Rightarrow> request list \<Rightarrow> (error + dict) \<times> request list"
where
  "api_search_datasets api query limit = list_datasets api (Some query) None None None limit 0"

text \<open>
  The conjunction as the specification words it: the quoted search term, the where
  clause, the publisher test and the theme test, in this order, each only when given.
\<close>

definition conjunction_parts ::
  "string option \<Rightarrow> string option \<Rightarrow> string option \<Rightarrow> string option \<Rightarrow> string list"
where
  "conjunction_parts search wher publisher theme =
     clause_if_given (\<lambda>s. [dquote] @ s @ [dquote]) search @
     clause_if_given (\<lambda>w. w) wher @
     clause_if_given (\<lambda>p. ''publisher='' @ [dquote] @ p @ [dquote]) publisher @
     clause_if_given (\<lambda>t. ''theme='' @ [dquote] @ t @ [dquote]) theme"

section \<open>Catalog tools (\<open>tools/catalog_tools.py\<close>)\<close>

text \<open>Running a step on every item of a list, in order, until one raises.\<close>

fun map_err :: "('a \<Rightarrow> error + 'b) \<Rightarrow> 'a list \<Rightarrow> error + 'b list" where
  "map_err f [] = Inr []"
| "map_err f (x # xs) =
     bind_err (f x) (\<lambda>y. bind_err (map_err f xs) (\<lambda>ys. Inr (y # ys)))"

text \<open>
  The guard \<open>not results or "results" not in results or not results["results"]\<close>:
  \<open>None\<close> when it fires, the value of \<open>results["results"]\<close> otherwise. An empty dict
  has no key, so the first test is covered by the second.
\<close>

definition results_of :: "dict \<Rightarrow> json option" where
  "results_of results =
     (case map_of results ''results'' of
        None \<Rightarrow> None
      | Some v \<Rightarrow> if py_truthy v then Some v else None)"

text \<open>\<open>dataset.get("metas", {}).get("default", {}).get(key, default)\<close>\<close>

definition meta_field :: "json \<Rightarrow> string \<Rightarrow> json \<Rightarrow> error + json" where
  "meta_field dataset k dflt =
     bind_err (py_get dataset ''metas'' (JObj []))
       (\<lambda>metas. bind_err (py_get metas ''default'' (JObj []))
         (\<lambda>dflt_metas. py_get dflt_metas k dflt))"

definition strip_markup :: "string \<Rightarrow> string" where
  "strip_markup d =
     py_replace ''<br>'' '' '' (py_replace ''</p>'' '' '' (py_replace ''<p>'' [] d))"

text \<open>The chain of \<open>replace\<close> calls needs a string; any other value has no such method.\<close>

fun clean_description :: "json \<Rightarrow> error + string" where
  "clean_description (JStr s) = Inr (strip_markup s)"
| "clean_description v =
     Inl (Raised AttributeError
       ([CHR 0x27] @ type_name v @ [CHR 0x27] @ '' object has no attribute '' @
        [CHR 0x27] @ ''replace'' @ [CHR 0x27]))"

definition truncate_description :: "string \<Rightarrow> string" where
  "truncate_description d = (if length d > 300 then take 297 d @ ''...'' else d)"

text \<open>The three lines of one entry of \<open>search_datasets\<close>.\<close>

definition search_entry :: "pylib \<Rightarrow> nat \<times> json \<Rightarrow> error + string list" where
  "search_entry lib item =
     (case item of (i, dataset) \<Rightarrow>
        bind_err (py_get dataset ''dataset_id'' (JStr ''N/A'')) (\<lambda>dataset_id.
        bind_err (meta_field dataset ''title'' (JStr ''Untitled Dataset'')) (\<lambda>title.
        bind_err (meta_field dataset ''publisher'' (JStr ''Unknown Publisher'')) (\<lambda>publisher.
        bind_err (meta_field dataset ''description'' (JStr ''No description available.''))
          (\<lambda>description.
        bind_err (clean_description description) (\<lambda>cleaned.
          Inr [newline # show_nat i @ ''. '' @ py_str lib title @ '' (ID: '' @
                 py_str lib dataset_id @ '')'',
               ''   Publisher: '' @ py_str lib publisher,
               ''   Description: '' @ truncate_description cleaned]))))))"

definition format_search_results :: "pylib \<Rightarrow> string \<Rightarrow> dict \<Rightarrow> error + string" where
  "format_search_results lib query results =
     (case results_of results of
        None \<Rightarrow> Inr ''No datasets found matching your query.''
      | Some datasets \<Rightarrow>
          bind_err (py_len datasets) (\<lambda>n.
          bind_err (py_iter datasets) (\<lambda>items.
          bind_err (map_err (search_entry lib) (enumerate1 items)) (\<lambda>entries.
            Inr (join_str [newline]
              ((''Found '' @ py_str lib (dict_get results ''total_count'' (JInt 0)) @
                '' datasets matching '' @ [CHR 0x27] @ query @ [CHR 0x27] @
                ''. Here are the first '' @ show_nat n @ '' results:'')
               # concat entries))))))"

text \<open>
  \<open>search_datasets\<close>: the lookup is not inside a \<open>try\<close>, so what it raises leaves the
  tool (\<open>Inl\<close>).
\<close>

definition search_datasets ::
  "pylib \<Rightarrow> http \<Rightarrow> string \<Rightarrow> int \<Rightarrow> request list \<Rightarrow> (error + string) \<times> request list"
where
  "search_datasets lib api query limit lg =
     (case api_search_datasets api query limit lg of
        (Inl e, lg1) \<Rightarrow> (Inl e, lg1)
      | (Inr results, lg1) \<Rightarrow> (format_search_results lib query results, lg1))"

text \<open>
  The theme of an entry of \<open>list_datasets_by_publisher\<close>:
  \<open>dataset.get("metas", {}).get("default", {}).get("theme", [""])[0]\<close>.
\<close>

definition publisher_theme :: "json \<Rightarrow> error + json" where
  "publisher_theme dataset =
     bind_err (meta_field dataset ''theme'' (JArr [JStr []])) py_item0"

definition publisher_entry :: "pylib \<Rightarrow> nat \<times> json \<Rightarrow> error + string list" where
  "publisher_entry lib item =
     (case item of (i, dataset) \<Rightarrow>
        bind_err (py_get dataset ''dataset_id'' (JStr ''N/A'')) (\<lambda>dataset_id.
        bind_err (meta_field dataset ''title'' (JStr ''Untitled Dataset'')) (\<lambda>title.
        bind_err (meta_field dataset ''records_count'' (JStr ''Unknown'')) (\<lambda>records_count.
        bind_err (publisher_theme dataset) (\<lambda>theme.
          Inr [newline # show_nat i @ ''. '' @ py_str lib title @ '' (ID: '' @
                 py_str lib dataset_id @ '')'',
               ''   Records: '' @ py_str lib records_count @
                 (if py_truthy theme then '' | Theme: '' @ py_str lib theme else [])])))))"

definition format_publisher_results :: "pylib \<Rightarrow> string \<Rightarrow> dict \<Rightarrow> error + string" where
  "format_publisher_results lib publisher results =
     (case results_of results of
        None \<Rightarrow> Inr (''No datasets found from publisher: '' @ publisher @ ''.'')
      | Some datasets \<Rightarrow>
          bind_err (py_len datasets) (\<lambda>n.
          bind_err (py_iter datasets) (\<lambda>items.
          bind_err (map_err (publisher_entry lib) (enumerate1 items)) (\<lambda>entries.
            Inr (join_str [newline]
              ((''Found '' @ py_str lib (dict_get results ''total_count'' (JInt 0)) @
                '' datasets from publisher '' @ [CHR 0x27] @ publisher @ [CHR 0x27] @
                ''. Here are the first '' @ show_nat n @ '' results:'')
               # concat entries))))))"

definition list_datasets_by_publisher ::
  "pylib \<Rightarrow> http \<Rightarrow> string \<Rightarrow> int \<Rightarrow> request list \<Rightarrow> (error + string) \<times> request list"
where
  "list_datasets_by_publisher lib api publisher limit lg =
     (case list_datasets api None (Some publisher) None None limit 0 lg of
        (Inl e, lg1) \<Rightarrow> (Inl e, lg1)
      | (Inr results, lg1) \<Rightarrow> (format_publisher_results lib publisher results, lg1))"

text \<open>
  The theme in \<open>summarize_dataset\<close> (\<open>analysis_tools.py\<close>), where \<open>metas\<close> is the default
  metadata: \<open>metas.get("theme", [""])[0] if metas.get("theme") else ""\<close>.
\<close>

definition summary_theme :: "json \<Rightarrow> error + json" where
  "summary_theme metas =
     bind_err (py_get metas ''theme'' JNull) (\<lambda>t.
       if py_truthy t
       then bind_err (py_get metas ''theme'' (JArr [JStr []])) py_item0
       else Inr (JStr []))"

section \<open>Query tools (\<open>tools/query_tools.py\<close>)\<close>

text \<open>
  The title of the report header: the lookup and the reading of the title are inside a
  \<open>try\<close> whose handler puts the placeholder.
\<close>

definition dataset_title :: "error + dict \<Rightarrow> json" where
  "dataset_title r =
     (case r of
        Inl e \<Rightarrow> JStr ''Unknown Dataset''
      | Inr info \<Rightarrow>
          (case meta_field (JObj info) ''title'' (JStr ''Unknown Dataset'') of
             Inl e \<Rightarrow> JStr ''Unknown Dataset''
           | Inr t \<Rightarrow> t))"

text \<open>A value for display: a dict or a list goes through \<open>json.dumps\<close>, then \<open>str\<close>.\<close>

fun display_value :: "pylib \<Rightarrow> json \<Rightarrow> string" where
  "display_value lib (JArr xs) = json_dumps lib (JArr xs)"
| "display_value lib (JObj d) = json_dumps lib (JObj d)"
| "display_value lib v = py_str lib v"

fun py_keys :: "json \<Rightarrow> error + string list" where
  "py_keys (JObj d) = Inr (map fst d)"
| "py_keys v =
     Inl (Raised AttributeError
       ([CHR 0x27] @ type_name v @ [CHR 0x27] @ '' object has no attribute '' @
        [CHR 0x27] @ ''keys'' @ [CHR 0x27]))"

fun py_items :: "json \<Rightarrow> error + (string \<times> json) list" where
  "py_items (JObj d) = Inr d"
| "py_items v =
     Inl (Raised AttributeError
       ([CHR 0x27] @ type_name v @ [CHR 0x27] @ '' object has no attribute '' @
        [CHR 0x27] @ ''items'' @ [CHR 0x27]))"

text \<open>The cells of one table row: \<open>record.get(key, "")\<close> for every column.\<close>

definition row_values :: "pylib \<Rightarrow> string list \<Rightarrow> json \<Rightarrow> error + string list" where
  "row_values lib record_keys record =
     map_err (\<lambda>key. bind_err (py_get record key (JStr []))
                (\<lambda>value. Inr (display_value lib value)))
       record_keys"

definition table_line :: "string list \<Rightarrow> string" where
  "table_line cells = ''| '' @ join_str '' | '' cells @ '' |''"

definition table_row :: "pylib \<Rightarrow> string list \<Rightarrow> json \<Rightarrow> error + string" where
  "table_row lib record_keys record =
     bind_err (row_values lib record_keys record) (\<lambda>vals. Inr (table_line vals))"

text \<open>
  The markdown table, written twice in the source with the same text (in
  \<open>get_dataset_records\<close> and in \<open>get_dataset_aggregates\<close>): header, separator, one row
  for each record.
\<close>

definition table_lines :: "pylib \<Rightarrow> string list \<Rightarrow> json list \<Rightarrow> error + string list" where
  "table_lines lib record_keys records =
     bind_err (map_err (table_row lib record_keys) records) (\<lambda>rows.
       Inr ((newline # table_line record_keys)
            # table_line (replicate (length record_keys) ''---'')
            # rows))"

text \<open>The key and value listing of one record.\<close>

definition verbose_record :: "pylib \<Rightarrow> nat \<times> json \<Rightarrow> error + string list" where
  "verbose_record lib item =
     (case item of (i, record) \<Rightarrow>
        bind_err (py_items record) (\<lambda>kvs.
          Inr ((newline # ''Record '' @ show_nat i @ '':'')
               # map (\<lambda>kv. ''  '' @ fst kv @ '': '' @ display_value lib (snd kv)) kvs)))"

definition verbose_lines :: "pylib \<Rightarrow> nat \<Rightarrow> nat \<Rightarrow> json list \<Rightarrow> error + string list" where
  "verbose_lines lib n_keys n_records records =
     bind_err (map_err (verbose_record lib) (enumerate1 records)) (\<lambda>blocks.
       Inr ((newline # ''Found '' @ show_nat n_keys @
               '' fields in the records. Here'' @ [CHR 0x27] @
               ''s a summary of the first '' @ show_nat n_records @ '' records:'')
            # concat blocks))"

definition odsql_note :: "string option \<Rightarrow> string option \<Rightarrow> string option \<Rightarrow> string list" where
  "odsql_note select wher order_by =
     (if given select \<or> given wher \<or> given order_by
      then [newline # ''Note: This query used ODSQL syntax:''] @
           clause_if_given (\<lambda>s. ''- SELECT: '' @ s) select @
           clause_if_given (\<lambda>w. ''- WHERE: '' @ w) wher @
           clause_if_given (\<lambda>ob. ''- ORDER BY: '' @ ob) order_by
      else [])"

text \<open>
  The lines of \<open>get_dataset_records\<close> after the two header lines: the listing when the
  first record has more than 10 keys, the table otherwise.
\<close>

definition records_body :: "pylib \<Rightarrow> json \<Rightarrow> error + string list" where
  "records_body lib records =
     bind_err (py_item0 records) (\<lambda>first.
     bind_err (py_keys first) (\<lambda>record_keys.
       if length record_keys > 10
       then bind_err (py_len records) (\<lambda>n.
            bind_err (py_iter records) (\<lambda>items.
              verbose_lines lib (length record_keys) n items))
       else bind_err (py_iter records) (\<lambda>items. table_lines lib record_keys items)))"

definition records_report ::
  "pylib \<Rightarrow> string \<Rightarrow> int \<Rightarrow> string option \<Rightarrow> string option \<Rightarrow> string option \<Rightarrow>
   json \<Rightarrow> json \<Rightarrow> json \<Rightarrow> error + string"
where
  "records_report lib dataset_id offset select wher order_by records total_count title =
     bind_err (py_len records) (\<lambda>n.
       let head =
         [''Records from dataset: '' @ py_str lib title @ '' (ID: '' @ dataset_id @ '')'',
          ''Showing '' @ show_nat n @ '' of '' @ py_str lib total_count @
            '' total records (offset: '' @ show_int offset @ '')'']
       in if \<not> py_truthy records
          then Inr (join_str [newline] (head @ [newline # ''No records found.'']))
          else bind_err (records_body lib records) (\<lambda>body.
                 Inr (join_str [newline] (head @ body @ odsql_note select wher order_by))))"

definition get_dataset_records ::
  "pylib \<Rightarrow> http \<Rightarrow> string \<Rightarrow> int \<Rightarrow> int \<Rightarrow> string option \<Rightarrow> string option \<Rightarrow> string option \<Rightarrow>
   request list \<Rightarrow> (error + string) \<times> request list"
where
  "get_dataset_records lib api dataset_id limit offset select wher order_by lg =
     (case api_get_dataset_records api dataset_id select wher None order_by limit offset lg of
        (Inl e, lg1) \<Rightarrow> (Inr (''Error retrieving dataset records: '' @ exn_text e), lg1)
      | (Inr results, lg1) \<Rightarrow>
          (case results_of results of
             None \<Rightarrow>
               (Inr (''No records found for dataset '' @ [CHR 0x27] @ dataset_id @ [CHR 0x27] @
                     '' with the specified criteria.''), lg1)
           | Some records \<Rightarrow>
               (case get_dataset api dataset_id lg1 of
                  (info, lg2) \<Rightarrow>
                    (records_report lib dataset_id offset select wher order_by records
                       (dict_get results ''total_count'' (JInt 0)) (dataset_title info),
                     lg2))))"

text \<open>\<open>get_dataset_aggregates\<close> renders the table whatever the number of keys is.\<close>

definition aggregates_body :: "pylib \<Rightarrow> json \<Rightarrow> error + string list" where
  "aggregates_body lib records =
     bind_err (py_item0 records) (\<lambda>first.
     bind_err (py_keys first) (\<lambda>record_keys.
     bind_err (py_iter records) (\<lambda>items. table_lines lib record_keys items)))"

definition aggregates_report ::
  "pylib \<Rightarrow> string \<Rightarrow> string \<Rightarrow> string option \<Rightarrow> string option \<Rightarrow> json \<Rightarrow> json \<Rightarrow> error + string"
where
  "aggregates_report lib dataset_id select group_by wher records title =
     bind_err (py_len records) (\<lambda>n.
       let head =
         [''Aggregation results for dataset: '' @ py_str lib title @
            '' (ID: '' @ dataset_id @ '')'',
          ''Query: SELECT '' @ select @
            concat (clause_if_given (\<lambda>g. '' GROUP BY '' @ g) group_by) @
            concat (clause_if_given (\<lambda>w. '' WHERE '' @ w) wher),
          ''Results: '' @ show_nat n @ '' rows'']
       in if \<not> py_truthy records
          then Inr (join_str [newline] (head @ [newline # ''No results found.'']))
          else bind_err (aggregates_body lib records) (\<lambda>body.
                 Inr (join_str [newline] (head @ body))))"

definition get_dataset_aggregates ::
  "pylib \<Rightarrow> http \<Rightarrow> string \<Rightarrow> string \<Rightarrow> string option \<Rightarrow> string option \<Rightarrow> int \<Rightarrow>
   request list \<Rightarrow> (error + string) \<times> request list"
where
  "get_dataset_aggregates lib api dataset_id select group_by wher limit lg =
     (case api_get_dataset_records api dataset_id (Some select) wher group_by None limit 0 lg of
        (Inl e, lg1) \<Rightarrow> (Inr (''Error performing aggregation: '' @ exn_text e), lg1)
      | (Inr results, lg1) \<Rightarrow>
          (case results_of results of
             None \<Rightarrow>
               (Inr (''No aggregation results found for dataset '' @ [CHR 0x27] @ dataset_id @
                     [CHR 0x27] @ '' with the specified criteria.''), lg1)
           | Some records \<Rightarrow>
               (case get_dataset api dataset_id lg1 of
                  (info, lg2) \<Rightarrow>
                    (aggregates_report lib dataset_id select group_by wher records
                       (dataset_title info),
                     lg2))))"

subsection \<open>Facet analysis\<close>

text \<open>
  \<open>sorted(facet_values, key=lambda x: x.get("count", 0), reverse=True)\<close>: the key of
  every item is read first; number keys are ordered by value, largest first, items
  with equal keys staying in their order (the list is reversed, sorted and reversed
  again).
\<close>

definition sorted_by_count :: "pylib \<Rightarrow> json list \<Rightarrow> error + json list" where
  "sorted_by_count lib xs =
     bind_err (map_err (\<lambda>x. py_get x ''count'' (JInt 0)) xs) (\<lambda>ks.
       if list_all is_number ks
       then Inr (map snd (rev (sort_key (\<lambda>p. num_val (fst p)) (rev (zip ks xs)))))
       else sorted_other lib ks xs)"

definition facet_row :: "pylib \<Rightarrow> json \<Rightarrow> error + string" where
  "facet_row lib v =
     bind_err (py_get v ''name'' (JStr ''N/A'')) (\<lambda>value_name.
     bind_err (py_get v ''count'' (JInt 0)) (\<lambda>count.
     bind_err (py_get v ''state'' (JStr ''N/A'')) (\<lambda>state.
       Inr (''| '' @ py_str lib value_name @ '' | '' @ py_str lib count @ '' | '' @
            py_str lib state @ '' |''))))"

definition facet_note :: "nat \<Rightarrow> string" where
  "facet_note n = newline # ''(Showing top 20 of '' @ show_nat n @ '' values)''"

text \<open>The lines that the loop of \<open>facet_analysis\<close> appends for one facet.\<close>

definition facet_lines :: "pylib \<Rightarrow> json \<Rightarrow> error + string list" where
  "facet_lines lib facet_data =
     bind_err (py_get facet_data ''name'' (JStr ''Unknown'')) (\<lambda>facet_name.
     bind_err (py_get facet_data ''facets'' (JArr [])) (\<lambda>facet_values.
     bind_err (py_len facet_values) (\<lambda>n.
       let head = newline # ''Facet: '' @ py_str lib facet_name @
                    '' ('' @ show_nat n @ '' values)''
       in if \<not> py_truthy facet_values
          then Inr [head, ''  No values found for this facet.'']
          else bind_err (py_iter facet_values) (\<lambda>items.
               bind_err (sorted_by_count lib items) (\<lambda>sorted_values.
               bind_err (map_err (facet_row lib) (take 20 sorted_values)) (\<lambda>rows.
                 Inr ([head, newline # ''| Value | Count | State |'', ''| --- | --- | --- |'']
                      @ rows
                      @ (if length sorted_values > 20
                         then [facet_note (length sorted_values)] else []))))))))"

definition facets_of :: "dict \<Rightarrow> json option" where
  "facets_of results =
     (case map_of results ''facets'' of
        None \<Rightarrow> None
      | Some v \<Rightarrow> if py_truthy v then Some v else None)"

definition facet_report ::
  "pylib \<Rightarrow> string \<Rightarrow> string list \<Rightarrow> string option \<Rightarrow> json \<Rightarrow> json \<Rightarrow> error + string"
where
  "facet_report lib dataset_id facets wher facet_list title =
     bind_err (py_iter facet_list) (\<lambda>items.
     bind_err (map_err (facet_lines lib) items) (\<lambda>blocks.
       Inr (join_str [newline]
         ([''Facet analysis for dataset: '' @ py_str lib title @ '' (ID: '' @ dataset_id @ '')'',
           ''Analyzing facets: '' @ join_str '', '' facets @
             concat (clause_if_given (\<lambda>w. '' WHERE '' @ w) wher)]
          @ concat blocks))))"

definition facet_analysis ::
  "pylib \<Rightarrow> http \<Rightarrow> string \<Rightarrow> string list \<Rightarrow> string option \<Rightarrow> request list \<Rightarrow>
   (error + string) \<times> request list"
where
  "facet_analysis lib api dataset_id facets wher lg =
     (case get_dataset_facets api dataset_id facets wher lg of
        (Inl e, lg1) \<Rightarrow> (Inr (''Error retrieving facets: '' @ exn_text e), lg1)
      | (Inr results, lg1) \<Rightarrow>
          (case facets_of results of
             None \<Rightarrow>
               (Inr (''No facet data found for dataset '' @ [CHR 0x27] @ dataset_id @
                     [CHR 0x27] @ '' with the specified criteria.''), lg1)
           | Some facet_list \<Rightarrow>
               (case get_dataset api dataset_id lg1 of
                  (info, lg2) \<Rightarrow>
                    (facet_report lib dataset_id facets wher facet_list (dataset_title info),
                     lg2))))"




section \<open>Analysis tools (\<open>tools/analysis_tools.py\<close>)\<close>

subsection \<open>Checking the field against the schema\<close>

text \<open>
  The three field analyses start with the same block: fetch the dataset, find the first
  field with the given name, and return a message when there is none or when its type is
  not one of the accepted ones. The block is inside a \<open>try\<close> that turns any exception
  into the message \<open>Error validating field: ...\<close>. Only the accepted types and the word
  in the message differ between the three copies.
\<close>

text \<open>The loop with \<open>break\<close>: the first field whose \<open>name\<close> equals the given name.\<close>

fun find_field :: "string \<Rightarrow> json list \<Rightarrow> error + json option" where
  "find_field field_name [] = Inr None"
| "find_field field_name (field # rest) =
     bind_err (py_get field ''name'' JNull) (\<lambda>n.
       if n = JStr field_name then Inr (Some field) else find_field field_name rest)"

definition numeric_types :: "json list" where
  "numeric_types = [JStr ''int'', JStr ''double'', JStr ''decimal'', JStr ''float'']"

definition text_types :: "json list" where
  "text_types = [JStr ''text'']"

definition date_types :: "json list" where
  "date_types = [JStr ''date'', JStr ''datetime'']"

definition not_found_message :: "string \<Rightarrow> string \<Rightarrow> string" where
  "not_found_message dataset_id field_name =
     ''Field '' @ [CHR 0x27] @ field_name @ [CHR 0x27] @ '' not found in dataset '' @
     [CHR 0x27] @ dataset_id @ [CHR 0x27] @ ''.''"

definition wrong_type_message :: "pylib \<Rightarrow> string \<Rightarrow> string \<Rightarrow> json \<Rightarrow> string" where
  "wrong_type_message lib kind field_name field_type =
     ''Field '' @ [CHR 0x27] @ field_name @ [CHR 0x27] @ '' is not a '' @ kind @
     '' field (type: '' @ py_str lib field_type @ '').''"

text \<open>
  The outcome of the block: the text that the tool returns at once, or the dataset and
  the label of the field with which the analysis goes on.
\<close>

datatype validated = Rejected string | Accepted dict json

definition check_field ::
  "pylib \<Rightarrow> json list \<Rightarrow> string \<Rightarrow> string \<Rightarrow> string \<Rightarrow> dict \<Rightarrow> error + validated"
where
  "check_field lib accepted kind dataset_id field_name dataset_info =
     bind_err (py_iter (dict_get dataset_info ''fields'' (JArr []))) (\<lambda>field_list.
     bind_err (find_field field_name field_list) (\<lambda>field_info.
       case field_info of
         None \<Rightarrow> Inr (Rejected (not_found_message dataset_id field_name))
       | Some f \<Rightarrow>
           if \<not> py_truthy f then Inr (Rejected (not_found_message dataset_id field_name))
           else bind_err (py_get f ''type'' (JStr [])) (\<lambda>field_type.
                  if field_type \<notin> set accepted
                  then Inr (Rejected (wrong_type_message lib kind field_name field_type))
                  else bind_err (py_get f ''label'' (JStr field_name)) (\<lambda>field_label.
                         Inr (Accepted dataset_info field_label)))))"

definition validate_field ::
  "pylib \<Rightarrow> json list \<Rightarrow> string \<Rightarrow> string \<Rightarrow> string \<Rightarrow> error + dict \<Rightarrow> validated"
where
  "validate_field lib accepted kind dataset_id field_name response =
     (case response of
        Inl e \<Rightarrow> Rejected (''Error validating field: '' @ exn_text e)
      | Inr dataset_info \<Rightarrow>
          (case check_field lib accepted kind dataset_id field_name dataset_info of
             Inl e \<Rightarrow> Rejected (''Error validating field: '' @ exn_text e)
           | Inr v \<Rightarrow> v))"

text \<open>\<open>response.get("results", [{}])[0].get(key, default)\<close>\<close>

definition first_result_field :: "dict \<Rightarrow> string \<Rightarrow> json \<Rightarrow> error + json" where
  "first_result_field response k dflt =
     bind_err (py_item0 (dict_get response ''results'' (JArr [JObj []])))
       (\<lambda>first. py_get first k dflt)"

subsection \<open>The numeric analysis\<close>

text \<open>
  The filter of one range of the distribution. The source writes it as the text
  \<open>field >= lower AND field < upper\<close>, with \<open><=\<close> in place of \<open><\<close> for the last
  range; the record keeps its parts, \<open>where_text\<close> is the text that is sent and
  \<open>where_holds\<close> is what the filter means for a value of the field.
\<close>

record range_where =
  rw_field :: string
  rw_lower :: rat
  rw_upper :: rat
  rw_inclusive :: bool

definition where_text :: "pylib \<Rightarrow> range_where \<Rightarrow> string" where
  "where_text lib w =
     rw_field w @ '' >= '' @ float_str lib (rw_lower w) @ '' AND '' @ rw_field w @
     (if rw_inclusive w then '' <= '' else '' < '') @ float_str lib (rw_upper w)"


definition bucket :: "string \<Rightarrow> rat \<Rightarrow> rat \<Rightarrow> nat \<Rightarrow> range_where" where
  "bucket field_name min_val range_size i =
     \<lparr> rw_field = field_name,
       rw_lower = min_val + of_nat i * range_size,
       rw_upper = min_val + (of_nat i + 1) * range_size,
       rw_inclusive = (i = 9) \<rparr>"


text \<open>
  The body of \<open>for i in range(10)\<close>, over the indices that are left: one lookup for each
  range; an exception ends the loop.
\<close>

fun distribution_loop ::
  "pylib \<Rightarrow> http \<Rightarrow> string \<Rightarrow> string \<Rightarrow> rat \<Rightarrow> rat \<Rightarrow> nat list \<Rightarrow> request list \<Rightarrow>
   (error + (rat \<times> rat \<times> json) list) \<times> request list"
where
  "distribution_loop lib api dataset_id field_name min_val range_size [] lg = (Inr [], lg)"
| "distribution_loop lib api dataset_id field_name min_val range_size (i # rest) lg =
     (let w = bucket field_name min_val range_size i
      in case api_get_dataset_records api dataset_id (Some ''count(*) as count'')
                (Some (where_text lib w)) None None 10 0 lg of
           (Inl e, lg1) \<Rightarrow> (Inl e, lg1)
         | (Inr range_result, lg1) \<Rightarrow>
             (case first_result_field range_result ''count'' (JInt 0) of
                Inl e \<Rightarrow> (Inl e, lg1)
              | Inr range_count \<Rightarrow>
                  (case distribution_loop lib api dataset_id field_name min_val range_size
                          rest lg1 of
                     (Inl e, lg2) \<Rightarrow> (Inl e, lg2)
                   | (Inr ds, lg2) \<Rightarrow> (Inr ((rw_lower w, rw_upper w, range_count) # ds), lg2))))"

text \<open>
  The distribution: \<open>None\<close> when the minimum or the maximum is not a number, when the
  range size is not positive, or when a lookup raised.
\<close>

definition distribution ::
  "pylib \<Rightarrow> http \<Rightarrow> string \<Rightarrow> string \<Rightarrow> json \<Rightarrow> json \<Rightarrow> request list \<Rightarrow>
   (rat \<times> rat \<times> json) list option \<times> request list"
where
  "distribution lib api dataset_id field_name min_val max_val lg =
     (if is_number min_val \<and> is_number max_val
      then let range_size = (num_val max_val - num_val min_val) / 10
           in if 0 < range_size
              then (case distribution_loop lib api dataset_id field_name (num_val min_val)
                           range_size [0 ..< 10] lg of
                      (Inl e, lg1) \<Rightarrow> (None, lg1)
                    | (Inr ds, lg1) \<Rightarrow> (Some ds, lg1))
              else (None, lg)
      else (None, lg))"

definition distribution_row :: "pylib \<Rightarrow> rat \<times> rat \<times> json \<Rightarrow> string" where
  "distribution_row lib r =
     (case r of (lower, upper, range_count) \<Rightarrow>
        ''| '' @ format_2f lib lower @ '' - '' @ format_2f lib upper @ '' | '' @
        py_str lib range_count @ '' |'')"

definition distribution_lines :: "pylib \<Rightarrow> (rat \<times> rat \<times> json) list option \<Rightarrow> string list" where
  "distribution_lines lib distr =
     (case distr of
        None \<Rightarrow> []
      | Some ds \<Rightarrow>
          if ds = [] then []
          else [newline # ''## Value Distribution'', ''| Range | Count |'', ''| --- | --- |'']
               @ map (distribution_row lib) ds)"

definition numeric_stats_select :: "string \<Rightarrow> string" where
  "numeric_stats_select field_name =
     ''min('' @ field_name @ '') as min, max('' @ field_name @ '') as max, avg('' @
     field_name @ '') as avg, count('' @ field_name @ '') as count''"

text \<open>\<open>stats["results"][0]\<close> and the four reads of it.\<close>

definition numeric_stat_values :: "json \<Rightarrow> error + (json \<times> json \<times> json \<times> json)" where
  "numeric_stat_values results =
     bind_err (py_item0 results) (\<lambda>stat_values.
     bind_err (py_get stat_values ''min'' (JStr ''N/A'')) (\<lambda>min_val.
     bind_err (py_get stat_values ''max'' (JStr ''N/A'')) (\<lambda>max_val.
     bind_err (py_get stat_values ''avg'' (JStr ''N/A'')) (\<lambda>avg_val.
     bind_err (py_get stat_values ''count'' (JStr ''N/A'')) (\<lambda>count.
       Inr (min_val, max_val, avg_val, count))))))"

definition analysis_head :: "pylib \<Rightarrow> string \<Rightarrow> string \<Rightarrow> json \<Rightarrow> json \<Rightarrow> string list" where
  "analysis_head lib dataset_id field_name field_label title =
     [''# Analysis of '' @ py_str lib field_label @ '' ('' @ field_name @ '')'',
      newline # ''Dataset: '' @ py_str lib title @ '' (ID: '' @ dataset_id @ '')'',
      newline # ''## Basic Statistics'']"

definition analyze_numeric_field ::
  "pylib \<Rightarrow> http \<Rightarrow> string \<Rightarrow> string \<Rightarrow> request list \<Rightarrow> (error + string) \<times> request list"
where
  "analyze_numeric_field lib api dataset_id field_name lg =
     (case get_dataset api dataset_id lg of (response, lg1) \<Rightarrow>
      case validate_field lib numeric_types ''numeric'' dataset_id field_name response of
        Rejected msg \<Rightarrow> (Inr msg, lg1)
      | Accepted dataset_info field_label \<Rightarrow>
      (case api_get_dataset_records api dataset_id (Some (numeric_stats_select field_name))
              None None None 10 0 lg1 of
         (Inl e, lg2) \<Rightarrow> (Inr (''Error computing field statistics: '' @ exn_text e), lg2)
       | (Inr stats, lg2) \<Rightarrow>
      (case results_of stats of
         None \<Rightarrow>
           (Inr (''Failed to compute statistics for field '' @ [CHR 0x27] @ field_name @
                 [CHR 0x27] @ ''.''), lg2)
       | Some results \<Rightarrow>
      (case numeric_stat_values results of
         Inl e \<Rightarrow> (Inr (''Error computing field statistics: '' @ exn_text e), lg2)
       | Inr (min_val, max_val, avg_val, cnt) \<Rightarrow>
      (case meta_field (JObj dataset_info) ''title'' (JStr ''Unknown Dataset'') of
         Inl e \<Rightarrow> (Inl e, lg2)
       | Inr title \<Rightarrow>
      (case distribution lib api dataset_id field_name min_val max_val lg2 of
         (distr, lg3) \<Rightarrow>
           (Inr (join_str [newline]
              (analysis_head lib dataset_id field_name field_label title @
               [''- **Count**: '' @ py_str lib cnt,
                ''- **Minimum**: '' @ py_str lib min_val,
                ''- **Maximum**: '' @ py_str lib max_val,
                ''- **Average**: '' @ py_str lib avg_val] @
               distribution_lines lib distr)),
            lg3)))))))"

subsection \<open>The text analysis\<close>

text \<open>
  The percentage cell of \<open>analyze_text_field\<close>: the division is made only when the total
  is a number above zero. The count is not tested: dividing a value that is not a number
  raises \<open>TypeError\<close>.
\<close>

definition percentage_str :: "pylib \<Rightarrow> json \<Rightarrow> json \<Rightarrow> error + string" where
  "percentage_str lib cnt total_records =
     (if is_number total_records \<and> 0 < num_val total_records
      then if is_number cnt
           then Inr (format_2f lib (num_val cnt / num_val total_records * 100) @ ''%'')
           else Inl (Raised TypeError
                  (''unsupported operand type(s) for /: '' @ [CHR 0x27] @ type_name cnt @
                   [CHR 0x27] @ '' and '' @ [CHR 0x27] @ type_name total_records @ [CHR 0x27]))
      else Inr ''N/A'')"

text \<open>A lookup inside a \<open>try\<close> whose handler puts a placeholder.\<close>

definition first_result_or :: "json \<Rightarrow> error + dict \<Rightarrow> string \<Rightarrow> json \<Rightarrow> json" where
  "first_result_or placeholder response k dflt =
     (case response of
        Inl e \<Rightarrow> placeholder
      | Inr r \<Rightarrow>
          (case first_result_field r k dflt of Inl e \<Rightarrow> placeholder | Inr v \<Rightarrow> v))"

definition frequency_row :: "pylib \<Rightarrow> string \<Rightarrow> json \<Rightarrow> json \<Rightarrow> error + string" where
  "frequency_row lib field_name total_records value_info =
     bind_err (py_get value_info field_name (JStr ''N/A'')) (\<lambda>val.
     bind_err (py_get value_info ''count'' (JInt 0)) (\<lambda>cnt.
     bind_err (percentage_str lib cnt total_records) (\<lambda>pct.
       Inr (''| '' @ py_str lib val @ '' | '' @ py_str lib cnt @ '' | '' @ pct @ '' |''))))"

definition frequency_lines :: "pylib \<Rightarrow> string \<Rightarrow> json \<Rightarrow> json \<Rightarrow> error + string list" where
  "frequency_lines lib field_name total_records vals =
     (if py_truthy vals
      then bind_err (py_len vals) (\<lambda>n.
           bind_err (py_iter vals) (\<lambda>items.
           bind_err (map_err (frequency_row lib field_name total_records) items) (\<lambda>rows.
             Inr ([newline # ''## Top '' @ show_nat n @ '' Values by Frequency'',
                   ''| Value | Count | Percentage |'', ''| --- | --- | --- |''] @ rows))))
      else Inr [])"

definition analyze_text_field ::
  "pylib \<Rightarrow> http \<Rightarrow> string \<Rightarrow> string \<Rightarrow> int \<Rightarrow> request list \<Rightarrow>
   (error + string) \<times> request list"
where
  "analyze_text_field lib api dataset_id field_name limit lg =
     (case get_dataset api dataset_id lg of (response, lg1) \<Rightarrow>
      case validate_field lib text_types ''text'' dataset_id field_name response of
        Rejected msg \<Rightarrow> (Inr msg, lg1)
      | Accepted dataset_info field_label \<Rightarrow>
      (case api_get_dataset_records api dataset_id
              (Some (field_name @ '', count(*) as count'')) None (Some field_name)
              (Some ''count DESC'') limit 0 lg1 of
         (Inl e, lg2) \<Rightarrow> (Inr (''Error computing value frequency: '' @ exn_text e), lg2)
       | (Inr frequency, lg2) \<Rightarrow>
      (case results_of frequency of
         None \<Rightarrow>
           (Inr (''Failed to compute value frequency for field '' @ [CHR 0x27] @ field_name @
                 [CHR 0x27] @ ''.''), lg2)
       | Some vals \<Rightarrow>
      (case api_get_dataset_records api dataset_id (Some ''count(*) as total'')
              None None None 10 0 lg2 of
         (count_result, lg3) \<Rightarrow>
      (let total_records = first_result_or (JStr ''Unknown'') count_result ''total'' (JInt 0)
       in case meta_field (JObj dataset_info) ''title'' (JStr ''Unknown Dataset'') of
            Inl e \<Rightarrow> (Inl e, lg3)
          | Inr title \<Rightarrow>
      (case api_get_dataset_records api dataset_id
              (Some (''count(distinct '' @ field_name @ '') as distinct_count''))
              None None None 10 0 lg3 of
         (distinct_result, lg4) \<Rightarrow>
      (let distinct_count =
             first_result_or (JStr ''Unknown'') distinct_result ''distinct_count''
               (JStr ''Unknown'')
       in (bind_err (frequency_lines lib field_name total_records vals) (\<lambda>freq.
             Inr (join_str [newline]
               (analysis_head lib dataset_id field_name field_label title @
                [''- **Total Records**: '' @ py_str lib total_records,
                 ''- **Distinct Values**: '' @ py_str lib distinct_count] @ freq))),
           lg4))))))))"

subsection \<open>The fill rate of the dataset statistics\<close>

text \<open>
  \<open>generate_dataset_statistics\<close> computes a fill rate for every text, date and
  geographic field with the same lines: here both the count of the field and the total
  are tested before the division.
\<close>

definition fill_rate_str :: "pylib \<Rightarrow> json \<Rightarrow> json \<Rightarrow> string" where
  "fill_rate_str lib field_count total_records =
     (if is_number field_count \<and> is_number total_records \<and> 0 < num_val total_records
      then format_2f lib (num_val field_count / num_val total_records * 100) @ ''%''
      else ''N/A'')"

text \<open>
  The row of a text field: the lookup, the two reads and the fill rate are inside a
  \<open>try\<close> whose handler puts \<open>N/A\<close> in both cells.
\<close>

definition text_statistics_row ::
  "pylib \<Rightarrow> string \<Rightarrow> json \<Rightarrow> json \<Rightarrow> error + dict \<Rightarrow> string"
where
  "text_statistics_row lib field_name field_label total_records response =
     (case (case response of
              Inl e \<Rightarrow> Inl e
            | Inr distinct_result \<Rightarrow>
                bind_err (first_result_field distinct_result ''distinct_count'' (JStr ''N/A''))
                  (\<lambda>distinct_count.
                bind_err (first_result_field distinct_result ''count'' (JInt 0))
                  (\<lambda>field_count.
                  Inr (distinct_count, fill_rate_str lib field_count total_records)))) of
        Inl e \<Rightarrow>
          ''| '' @ py_str lib field_label @ '' ('' @ field_name @ '') | N/A | N/A |''
      | Inr (distinct_count, rate) \<Rightarrow>
          ''| '' @ py_str lib field_label @ '' ('' @ field_name @ '') | '' @
          py_str lib distinct_count @ '' | '' @ rate @ '' |'')"

subsection \<open>The date analysis\<close>

text \<open>\<open>xs[k]\<close> for an integer \<open>k\<close>: a negative index counts from the end.\<close>

definition py_index :: "'a list \<Rightarrow> int \<Rightarrow> error + 'a" where
  "py_index xs k =
     (let n = int (length xs); j = (if k < 0 then n + k else k)
      in if 0 \<le> j \<and> j < n then Inr (xs ! nat j)
         else Inl (Raised IndexError ''list index out of range''))"

definition month_names :: "string list" where
  "month_names =
     [''January'', ''February'', ''March'', ''April'', ''May'', ''June'', ''July'', ''August'',
      ''September'', ''October'', ''November'', ''December'']"

text \<open>\<open>month_names[month_num - 1]\<close>\<close>

fun month_name :: "json \<Rightarrow> error + string" where
  "month_name (JInt m) = py_index month_names (m - 1)"
| "month_name (JBool b) = py_index month_names ((if b then 1 else 0) - 1)"
| "month_name (JFloat r) =
     Inl (Raised TypeError ''list indices must be integers or slices, not float'')"
| "month_name v =
     Inl (Raised TypeError
       (''unsupported operand type(s) for -: '' @ [CHR 0x27] @ type_name v @ [CHR 0x27] @
        '' and '' @ [CHR 0x27] @ ''int'' @ [CHR 0x27]))"

text \<open>\<open>sorted(ys, reverse=True)\<close>\<close>

definition py_sorted_desc :: "pylib \<Rightarrow> json list \<Rightarrow> error + json list" where
  "py_sorted_desc lib ys =
     (if list_all is_number ys then Inr (rev (sort_key num_val (rev ys)))
      else sorted_other lib ys ys)"

definition recent_years :: "pylib \<Rightarrow> json \<Rightarrow> error + json list" where
  "recent_years lib years_data =
     bind_err (py_iter years_data) (\<lambda>items.
     bind_err (map_err (\<lambda>item. py_get item ''year'' JNull) items) (\<lambda>ys.
     bind_err (py_sorted_desc lib ys) (\<lambda>sorted_years. Inr (take 5 sorted_years))))"

text \<open>
  The loop over the recent years: a lookup that raises ends the loop, and what was
  appended before stays.
\<close>

fun month_loop ::
  "pylib \<Rightarrow> http \<Rightarrow> string \<Rightarrow> string \<Rightarrow> json list \<Rightarrow> request list \<Rightarrow>
   (json \<times> json) list \<times> request list"
where
  "month_loop lib api dataset_id field_name [] lg = ([], lg)"
| "month_loop lib api dataset_id field_name (year # rest) lg =
     (case api_get_dataset_records api dataset_id
             (Some (''month('' @ field_name @ '') as month, count(*) as count''))
             (Some (''year('' @ field_name @ '') = '' @ py_str lib year))
             (Some (''month('' @ field_name @ '')'')) (Some ''month'') 10 0 lg of
        (Inl e, lg1) \<Rightarrow> ([], lg1)
      | (Inr month_distribution, lg1) \<Rightarrow>
          (let months = dict_get month_distribution ''results'' (JArr [])
           in case month_loop lib api dataset_id field_name rest lg1 of
                (later, lg2) \<Rightarrow>
                  ((if py_truthy months then [(year, months)] else []) @ later, lg2)))"

definition month_data ::
  "pylib \<Rightarrow> http \<Rightarrow> string \<Rightarrow> string \<Rightarrow> json \<Rightarrow> request list \<Rightarrow>
   (json \<times> json) list \<times> request list"
where
  "month_data lib api dataset_id field_name years_data lg =
     (if py_truthy years_data
      then (case recent_years lib years_data of
              Inl e \<Rightarrow> ([], lg)
            | Inr ys \<Rightarrow> month_loop lib api dataset_id field_name ys lg)
      else ([], lg))"

definition year_row :: "pylib \<Rightarrow> json \<Rightarrow> error + string" where
  "year_row lib year_info =
     bind_err (py_get year_info ''year'' (JStr ''N/A'')) (\<lambda>year.
     bind_err (py_get year_info ''count'' (JInt 0)) (\<lambda>year_count.
       Inr (''| '' @ py_str lib year @ '' | '' @ py_str lib year_count @ '' |'')))"

definition year_lines :: "pylib \<Rightarrow> json \<Rightarrow> error + string list" where
  "year_lines lib years_data =
     (if py_truthy years_data
      then bind_err (py_iter years_data) (\<lambda>items.
           bind_err (map_err (year_row lib) items) (\<lambda>rows.
             Inr ([newline # ''## Distribution by Year'', ''| Year | Count |'', ''| --- | --- |'']
                  @ rows)))
      else Inr [])"

definition month_row :: "pylib \<Rightarrow> json \<Rightarrow> error + string" where
  "month_row lib month_info =
     bind_err (py_get month_info ''month'' (JInt 0)) (\<lambda>month_num.
     bind_err (month_name month_num) (\<lambda>name.
     bind_err (py_get month_info ''count'' (JInt 0)) (\<lambda>month_count.
       Inr (''| '' @ name @ '' | '' @ py_str lib month_count @ '' |''))))"

definition month_block :: "pylib \<Rightarrow> json \<times> json \<Rightarrow> error + string list" where
  "month_block lib ym =
     (case ym of (year, months) \<Rightarrow>
        bind_err (py_iter months) (\<lambda>items.
        bind_err (map_err (month_row lib) items) (\<lambda>rows.
          Inr ([newline # ''### '' @ py_str lib year, ''| Month | Count |'', ''| --- | --- |'']
               @ rows))))"

definition month_lines :: "pylib \<Rightarrow> (json \<times> json) list \<Rightarrow> error + string list" where
  "month_lines lib md =
     (if md = [] then Inr []
      else bind_err (map_err (month_block lib) md) (\<lambda>blocks.
             Inr ((newline # ''## Monthly Distribution (Last '' @ show_nat (length md) @
                     '' Years)'') # concat blocks)))"

definition date_stat_values :: "json \<Rightarrow> error + (json \<times> json \<times> json)" where
  "date_stat_values results =
     bind_err (py_item0 results) (\<lambda>stat_values.
     bind_err (py_get stat_values ''min_date'' (JStr ''N/A'')) (\<lambda>min_date.
     bind_err (py_get stat_values ''max_date'' (JStr ''N/A'')) (\<lambda>max_date.
     bind_err (py_get stat_values ''count'' (JStr ''N/A'')) (\<lambda>cnt.
       Inr (min_date, max_date, cnt)))))"

definition analyze_date_field ::
  "pylib \<Rightarrow> http \<Rightarrow> string \<Rightarrow> string \<Rightarrow> request list \<Rightarrow> (error + string) \<times> request list"
where
  "analyze_date_field lib api dataset_id field_name lg =
     (case get_dataset api dataset_id lg of (response, lg1) \<Rightarrow>
      case validate_field lib date_types ''date'' dataset_id field_name response of
        Rejected msg \<Rightarrow> (Inr msg, lg1)
      | Accepted dataset_info field_label \<Rightarrow>
      (case api_get_dataset_records api dataset_id
              (Some (''min('' @ field_name @ '') as min_date, max('' @ field_name @
                     '') as max_date, count('' @ field_name @ '') as count''))
              None None None 10 0 lg1 of
         (Inl e, lg2) \<Rightarrow> (Inr (''Error computing field statistics: '' @ exn_text e), lg2)
       | (Inr stats, lg2) \<Rightarrow>
      (case results_of stats of
         None \<Rightarrow>
           (Inr (''Failed to compute statistics for field '' @ [CHR 0x27] @ field_name @
                 [CHR 0x27] @ ''.''), lg2)
       | Some results \<Rightarrow>
      (case date_stat_values results of
         Inl e \<Rightarrow> (Inr (''Error computing field statistics: '' @ exn_text e), lg2)
       | Inr (min_date, max_date, cnt) \<Rightarrow>
      (case meta_field (JObj dataset_info) ''title'' (JStr ''Unknown Dataset'') of
         Inl e \<Rightarrow> (Inl e, lg2)
       | Inr title \<Rightarrow>
      (case api_get_dataset_records api dataset_id
              (Some (''year('' @ field_name @ '') as year, count(*) as count''))
              None (Some (''year('' @ field_name @ '')'')) (Some ''year'') 10 0 lg2 of
         (year_distribution, lg3) \<Rightarrow>
      (let years_data =
             (case year_distribution of
                Inl e \<Rightarrow> JArr []
              | Inr yd \<Rightarrow> dict_get yd ''results'' (JArr []))
       in case month_data lib api dataset_id field_name years_data lg3 of
            (md, lg4) \<Rightarrow>
              (bind_err (year_lines lib years_data) (\<lambda>yl.
               bind_err (month_lines lib md) (\<lambda>ml.
                 Inr (join_str [newline]
                   (analysis_head lib dataset_id field_name field_label title @
                    [''- **Count**: '' @ py_str lib cnt,
                     ''- **Earliest Date**: '' @ py_str lib min_date,
                     ''- **Latest Date**: '' @ py_str lib max_date] @ yl @ ml)))),
               lg4))))))))"

text \<open>A field of the schema that is a dict and has another name than the one sought.\<close>

definition other_field :: "string \<Rightarrow> json \<Rightarrow> bool" where
  "other_field field_name x =
     (case x of JObj d \<Rightarrow> dict_get d ''name'' JNull \<noteq> JStr field_name | _ \<Rightarrow> False)"

text \<open>A schema and a transport for the examples.\<close>

definition station_schema :: dict where
  "station_schema =
     [(''dataset_id'', JStr ''stations''),
      (''fields'', JArr
         [JObj [(''name'', JStr ''id''), (''type'', JStr ''int'')],
          JObj [(''name'', JStr ''location''), (''label'', JStr ''Location''),
                (''type'', JStr ''geo_point_2d'')]])]"


section \<open>The filter expression of the dataset listing\<close>

lemma join_str_Cons: "ys \<noteq> [] \<Longrightarrow> join_str sep (x # ys) = x @ sep @ join_str sep ys"
  by (cases ys) simp_all

text \<open>
  C1. The \<open>where\<close> parameter that \<open>list_datasets\<close> sends is the conjunction of the parts
  that are given, in the order search term (in double quotes), where clause,
  \<open>publisher="..."\<close>, \<open>theme="..."\<close>, joined by \<open>" AND "\<close>; a part that is not given is
  skipped, and with no part at all there is no \<open>where\<close> parameter. With all four given
  the expression is the quoted search term, then the where clause, then the publisher
  test, then the theme test.
\<close>

theorem list_datasets_where_conjunction:
  "map_of (list_datasets_params search publisher theme wher limit offset) ''where'' =
     (if conjunction_parts search wher publisher theme = [] then None
      else Some (PStr (join_str '' AND '' (conjunction_parts search wher publisher theme))))
   \<and> (s \<noteq> [] \<and> w \<noteq> [] \<and> p \<noteq> [] \<and> t \<noteq> [] \<longrightarrow>
        map_of (list_datasets_params (Some s) (Some p) (Some t) (Some w) limit offset) ''where'' =
          Some (PStr ([dquote] @ s @ [dquote] @ '' AND '' @ w @
                      '' AND '' @ ''publisher='' @ [dquote] @ p @ [dquote] @
                      '' AND '' @ ''theme='' @ [dquote] @ t @ [dquote])))"
proof -
  have general: "map_of (list_datasets_params a b c d limit offset) ''where'' =
     (if conjunction_parts a d b c = [] then None
      else Some (PStr (join_str '' AND '' (conjunction_parts a d b c))))" for a b c d
  proof -
    define rest where "rest =
      clause_if_given (\<lambda>w. w) d @
      clause_if_given (\<lambda>p. ''publisher='' @ [dquote] @ p @ [dquote]) b @
      clause_if_given (\<lambda>t. ''theme='' @ [dquote] @ t @ [dquote]) c"
    show ?thesis
    proof (cases "given a")
      case False
      then have "clause_if_given (\<lambda>s. [dquote] @ s @ [dquote]) a = []"
        by (cases a) auto
      with False show ?thesis
        by (cases a)
           (auto simp: list_datasets_params_def conjunction_parts_def Let_def update_conv')
    next
      case True
      then obtain s where a: "a = Some s" and s: "s \<noteq> []"
        by (cases a) auto
      show ?thesis
      proof (cases "rest = []")
        case True
        with a s show ?thesis
          by (simp add: list_datasets_params_def conjunction_parts_def Let_def
              update_conv' rest_def)
      next
        case False
        with a s show ?thesis
          by (simp add: list_datasets_params_def conjunction_parts_def Let_def
              update_conv' rest_def [symmetric] join_str_Cons)
      qed
    qed
  qed
  have all_four: "s \<noteq> [] \<and> w \<noteq> [] \<and> p \<noteq> [] \<and> t \<noteq> [] \<longrightarrow>
        map_of (list_datasets_params (Some s) (Some p) (Some t) (Some w) limit offset) ''where'' =
          Some (PStr ([dquote] @ s @ [dquote] @ '' AND '' @ w @
                      '' AND '' @ ''publisher='' @ [dquote] @ p @ [dquote] @
                      '' AND '' @ ''theme='' @ [dquote] @ t @ [dquote]))"
    by (simp add: general conjunction_parts_def)
  from general all_four show ?thesis by blast
qed

theorem list_datasets_where_conjunction_witness:
  "map_of (list_datasets_params (Some ''wind'') (Some ''SPEN'') (Some ''Energy'')
            (Some ''records_count > 10'') 10 0) ''where'' =
     Some (PStr ([dquote] @ ''wind'' @ [dquote] @ '' AND records_count > 10 AND publisher='' @
                 [dquote] @ ''SPEN'' @ [dquote] @ '' AND theme='' @ [dquote] @ ''Energy'' @ [dquote]))
   \<and> map_of (list_datasets_params None (Some ''SPEN'') None None 10 0) ''where'' =
     Some (PStr (''publisher='' @ [dquote] @ ''SPEN'' @ [dquote]))
   \<and> map_of (list_datasets_params None None None (Some []) 10 0) ''where'' = None"
proof -
  have a: "''wind'' \<noteq> [] \<and> ''records_count > 10'' \<noteq> [] \<and> ''SPEN'' \<noteq> [] \<and> ''Energy'' \<noteq> []"
    by simp
  have 1: "map_of (list_datasets_params (Some ''wind'') (Some ''SPEN'') (Some ''Energy'')
            (Some ''records_count > 10'') 10 0) ''where'' =
     Some (PStr ([dquote] @ ''wind'' @ [dquote] @ '' AND records_count > 10 AND publisher='' @
                 [dquote] @ ''SPEN'' @ [dquote] @ '' AND theme='' @ [dquote] @ ''Energy'' @ [dquote]))"
    using list_datasets_where_conjunction
      [of "Some ''wind''" "Some ''SPEN''" "Some ''Energy''" "Some ''records_count > 10''"
        10 0 "''wind''" "''records_count > 10''" "''SPEN''" "''Energy''",
       THEN conjunct2, THEN mp, OF a]
    by simp
  from list_datasets_where_conjunction
    [of None "Some ''SPEN''" None None 10 0 "[]" "[]" "[]" "[]", THEN conjunct1]
  have 2: "map_of (list_datasets_params None (Some ''SPEN'') None None 10 0) ''where'' =
     Some (PStr (''publisher='' @ [dquote] @ ''SPEN'' @ [dquote]))"
    by (simp add: conjunction_parts_def)
  from list_datasets_where_conjunction
    [of None None None "Some []" 10 0 "[]" "[]" "[]" "[]", THEN conjunct1]
  have 3: "map_of (list_datasets_params None None None (Some []) 10 0) ''where'' = None"
    by (simp add: conjunction_parts_def)
  from 1 2 3 show ?thesis by blast
qed

section \<open>Steps that may raise\<close>

lemma bind_err_Inr: "bind_err m f = Inr y \<longleftrightarrow> (\<exists>x. m = Inr x \<and> f x = Inr y)"
  by (cases m) auto

lemma py_get_Inr: "py_get v k d = Inr x \<longleftrightarrow> (\<exists>dd. v = JObj dd \<and> x = dict_get dd k d)"
  by (cases v) auto

lemma meta_field_Inr:
  "meta_field dataset k dflt = Inr v \<longleftrightarrow>
     (\<exists>dd m df. dataset = JObj dd \<and> dict_get dd ''metas'' (JObj []) = JObj m \<and>
        dict_get m ''default'' (JObj []) = JObj df \<and> v = dict_get df k dflt)"
  by (auto simp: meta_field_def bind_err_Inr py_get_Inr)

lemma meta_field_other:
  assumes "meta_field dataset k dflt = Inr v"
  shows "\<exists>v'. meta_field dataset k' dflt' = Inr v'"
  using assms unfolding meta_field_Inr by blast

lemma meta_field_dataset_get:
  assumes "meta_field dataset k dflt = Inr v"
  shows "\<exists>x. py_get dataset k' dflt' = Inr x"
  using assms unfolding meta_field_Inr py_get_Inr by blast

lemma map_err_append_raise:
  assumes "map_err f xs = Inr ys" and "f x = Inl e"
  shows "map_err f (xs @ x # zs) = Inl e"
  using assms by (induction xs arbitrary: ys) (auto simp: bind_err_Inr)

lemma enumerate1_append:
  "enumerate1 (xs @ y # zs) =
     enumerate1 xs @ (Suc (length xs), y) # enumerate (Suc (Suc (length xs))) zs"
  by (simp add: enumerate1_def enumerate_append_eq)

lemma map_err_Inr_nth:
  "map_err f xs = Inr ys \<Longrightarrow> length ys = length xs \<and> (\<forall>i<length xs. f (xs ! i) = Inr (ys ! i))"
proof (induction xs arbitrary: ys)
  case Nil
  then show ?case by simp
next
  case (Cons x xs)
  from Cons.prems obtain y ys' where y: "f x = Inr y" and ys': "map_err f xs = Inr ys'"
    and ys: "ys = y # ys'"
    by (auto simp: bind_err_Inr)
  from Cons.IH [OF ys'] y ys show ?case
    by (auto simp: nth_Cons split: nat.split)
qed

lemma map_err_map:
  "(\<And>x. x \<in> set xs \<Longrightarrow> f x = Inr (g x)) \<Longrightarrow> map_err f xs = Inr (map g xs)"
  by (induction xs) auto

section \<open>Failures of the lookups\<close>

text \<open>
  C2. A tool should answer a failed lookup with a text. \<open>search_datasets\<close> and
  \<open>list_datasets_by_publisher\<close> do not: the exception of the HTTP call leaves the tool
  as it is (the result is \<open>Inl e\<close>), while \<open>get_dataset_records\<close>, like the other tools,
  answers with the one-line message \<open>Error retrieving dataset records: ...\<close>.
\<close>

theorem tools_propagate_lookup_failure:
  "(api (Request ''/catalog/datasets''
          (Some (list_datasets_params (Some query) None None None limit 0))) = Inl e \<longrightarrow>
      fst (search_datasets lib api query limit lg) = Inl e)
   \<and> (api (Request ''/catalog/datasets''
          (Some (list_datasets_params None (Some publisher) None None limit 0))) = Inl e \<longrightarrow>
      fst (list_datasets_by_publisher lib api publisher limit lg) = Inl e)
   \<and> (api (Request (''/catalog/datasets/'' @ dataset_id @ ''/records'')
          (Some (records_params select wher None order_by limit offset))) = Inl e \<longrightarrow>
      fst (get_dataset_records lib api dataset_id limit offset select wher order_by lg) =
        Inr (''Error retrieving dataset records: '' @ exn_text e))"
  by (simp add: search_datasets_def api_search_datasets_def list_datasets_by_publisher_def
      list_datasets_def get_dataset_records_def api_get_dataset_records_def call_def)

theorem tools_propagate_lookup_failure_witness:
  "fst (search_datasets example_lib (\<lambda>rq. Inl (Raised HTTPError ''503 Service Unavailable''))
          ''demand'' 3 []) = Inl (Raised HTTPError ''503 Service Unavailable'')
   \<and> fst (list_datasets_by_publisher example_lib
          (\<lambda>rq. Inl (Raised HTTPError ''503 Service Unavailable'')) ''SPEN'' 10 []) =
       Inl (Raised HTTPError ''503 Service Unavailable'')
   \<and> fst (get_dataset_records example_lib
          (\<lambda>rq. Inl (Raised HTTPError ''503 Service Unavailable'')) ''gold-prices'' 10 0
          None None None []) =
       Inr ''Error retrieving dataset records: 503 Service Unavailable''"
  using tools_propagate_lookup_failure
    [where api = "\<lambda>rq. Inl (Raised HTTPError ''503 Service Unavailable'')"
       and e = "Raised HTTPError ''503 Service Unavailable''" and lib = example_lib
       and query = "''demand''" and limit = 3 and lg = "[]" and publisher = "''SPEN''"]
    tools_propagate_lookup_failure
    [where api = "\<lambda>rq. Inl (Raised HTTPError ''503 Service Unavailable'')"
       and e = "Raised HTTPError ''503 Service Unavailable''" and lib = example_lib
       and limit = 10 and lg = "[]" and publisher = "''SPEN''"
       and dataset_id = "''gold-prices''" and offset = 0 and select = None and wher = None
       and order_by = None]
  by simp

section \<open>The theme of a publisher listing\<close>

text \<open>
  C9. In \<open>list_datasets_by_publisher\<close> a dataset whose default metadata binds \<open>theme\<close>
  to an empty list makes the entry, and with it the whole tool, raise \<open>IndexError\<close>
  (here for the first such dataset, the entries before it being rendered without an
  exception). The fallback \<open>[""]\<close> is used only when the key is absent: with default
  metadata \<open>dm\<close> the theme is the empty string when \<open>dm\<close> has no \<open>theme\<close> and element 0 of
  the bound value otherwise. \<open>summarize_dataset\<close> tests the value first and gives the
  empty string for the empty list.
\<close>

theorem publisher_theme_empty_list_raises:
  "(meta_field dataset ''theme'' (JArr [JStr []]) = Inr (JArr []) \<longrightarrow>
      publisher_entry lib (i, dataset) = Inl (Raised IndexError ''list index out of range''))
   \<and> (meta_field dataset ''theme'' (JArr [JStr []]) = Inr (JArr []) \<and>
      api (Request ''/catalog/datasets''
             (Some (list_datasets_params None (Some publisher) None None limit 0))) = Inr results \<and>
      map_of results ''results'' = Some (JArr (before @ dataset # after)) \<and>
      map_err (publisher_entry lib) (enumerate1 before) = Inr entries \<longrightarrow>
      fst (list_datasets_by_publisher lib api publisher limit lg) =
        Inl (Raised IndexError ''list index out of range''))
   \<and> (py_get dataset ''metas'' (JObj []) = Inr metas \<and>
      py_get metas ''default'' (JObj []) = Inr (JObj dm) \<longrightarrow>
      publisher_theme dataset =
        (case map_of dm ''theme'' of None \<Rightarrow> Inr (JStr []) | Some v \<Rightarrow> py_item0 v))
   \<and> (map_of dm ''theme'' = Some (JArr []) \<longrightarrow> summary_theme (JObj dm) = Inr (JStr []))"
proof -
  have entry: "publisher_entry lib (i, dataset) = Inl (Raised IndexError ''list index out of range'')"
    if m: "meta_field dataset ''theme'' (JArr [JStr []]) = Inr (JArr [])" for i
  proof -
    from meta_field_dataset_get [OF m]
    obtain a where a: "py_get dataset ''dataset_id'' (JStr ''N/A'') = Inr a" by blast
    from meta_field_other [OF m]
    obtain t where t: "meta_field dataset ''title'' (JStr ''Untitled Dataset'') = Inr t" by blast
    from meta_field_other [OF m]
    obtain c where c: "meta_field dataset ''records_count'' (JStr ''Unknown'') = Inr c" by blast
    show ?thesis
      by (simp add: publisher_entry_def publisher_theme_def a t c m)
  qed
  have tool: "fst (list_datasets_by_publisher lib api publisher limit lg) =
        Inl (Raised IndexError ''list index out of range'')"
    if m: "meta_field dataset ''theme'' (JArr [JStr []]) = Inr (JArr [])"
      and r: "api (Request ''/catalog/datasets''
             (Some (list_datasets_params None (Some publisher) None None limit 0))) = Inr results"
      and ds: "map_of results ''results'' = Some (JArr (before @ dataset # after))"
      and pre: "map_err (publisher_entry lib) (enumerate1 before) = Inr entries"
  proof -
    have "map_err (publisher_entry lib) (enumerate1 (before @ dataset # after)) =
            Inl (Raised IndexError ''list index out of range'')"
      unfolding enumerate1_append
      by (rule map_err_append_raise [OF pre entry [OF m]])
    then have "format_publisher_results lib publisher results =
            Inl (Raised IndexError ''list index out of range'')"
      by (simp add: format_publisher_results_def results_of_def ds)
    then show ?thesis
      by (simp add: list_datasets_by_publisher_def list_datasets_def call_def r)
  qed
  have fallback: "publisher_theme dataset =
        (case map_of dm ''theme'' of None \<Rightarrow> Inr (JStr []) | Some v \<Rightarrow> py_item0 v)"
    if "py_get dataset ''metas'' (JObj []) = Inr metas"
      and "py_get metas ''default'' (JObj []) = Inr (JObj dm)"
    using that
    by (simp add: publisher_theme_def meta_field_def dict_get_def split: option.split)
  have summary: "summary_theme (JObj dm) = Inr (JStr [])" if "map_of dm ''theme'' = Some (JArr [])"
    using that by (simp add: summary_theme_def dict_get_def)
  from entry tool fallback summary show ?thesis by blast
qed

theorem publisher_theme_empty_list_raises_witness:
  "fst (list_datasets_by_publisher example_lib
          (\<lambda>rq. Inr [(''total_count'', JInt 2),
                      (''results'', JArr
                         [JObj [(''dataset_id'', JStr ''loads''),
                            (''metas'', JObj [(''default'', JObj [(''title'', JStr ''System loads''),
                               (''records_count'', JInt 120),
                               (''theme'', JArr [JStr ''Energy''])])])],
                          JObj [(''dataset_id'', JStr ''flows''),
                            (''metas'', JObj [(''default'', JObj [(''title'', JStr ''Flows''),
                               (''theme'', JArr [])])])]])])
          ''SPEN'' 10 []) = Inl (Raised IndexError ''list index out of range'')
   \<and> publisher_theme (JObj [(''metas'', JObj [(''default'', JObj [(''title'', JStr ''Flows'')])])]) =
       Inr (JStr [])
   \<and> summary_theme (JObj [(''title'', JStr ''Flows''), (''theme'', JArr [])]) = Inr (JStr [])"
proof -
  let ?d1 = "JObj [(''dataset_id'', JStr ''loads''),
                            (''metas'', JObj [(''default'', JObj [(''title'', JStr ''System loads''),
                               (''records_count'', JInt 120),
                               (''theme'', JArr [JStr ''Energy''])])])]"
  let ?d2 = "JObj [(''dataset_id'', JStr ''flows''),
                            (''metas'', JObj [(''default'', JObj [(''title'', JStr ''Flows''),
                               (''theme'', JArr [])])])]"
  let ?results = "[(''total_count'', JInt 2), (''results'', JArr [?d1, ?d2])]"
  have m: "meta_field ?d2 ''theme'' (JArr [JStr []]) = Inr (JArr [])"
    by (simp add: meta_field_def dict_get_def)
  have r: "(\<lambda>rq. Inr ?results)
             (Request ''/catalog/datasets''
                (Some (list_datasets_params None (Some ''SPEN'') None None 10 0))) = Inr ?results"
    by simp
  have ds: "map_of ?results ''results'' = Some (JArr ([?d1] @ ?d2 # []))"
    by simp
  have pre: "map_err (publisher_entry example_lib) (enumerate1 [?d1]) =
      Inr [[newline # ''1. System loads (ID: loads)'', ''   Records: 120 | Theme: Energy'']]"
    by (simp add: enumerate1_def publisher_entry_def publisher_theme_def meta_field_def
        dict_get_def show_int_def show_nat.simps)
  have 1: "fst (list_datasets_by_publisher example_lib (\<lambda>rq. Inr ?results) ''SPEN'' 10 []) =
      Inl (Raised IndexError ''list index out of range'')"
    using publisher_theme_empty_list_raises [where lib = example_lib,
        THEN conjunct2, THEN conjunct1, THEN mp, OF conjI [OF m conjI [OF r conjI [OF ds pre]]]] .
  have 2: "publisher_theme (JObj [(''metas'', JObj [(''default'', JObj [(''title'', JStr ''Flows'')])])]) =
       Inr (JStr [])"
    using publisher_theme_empty_list_raises
      [where dataset = "JObj [(''metas'', JObj [(''default'', JObj [(''title'', JStr ''Flows'')])])]"
         and metas = "JObj [(''default'', JObj [(''title'', JStr ''Flows'')])]"
         and dm = "[(''title'', JStr ''Flows'')]",
       THEN conjunct2, THEN conjunct2, THEN conjunct1]
    by (simp add: dict_get_def)
  have 3: "summary_theme (JObj [(''title'', JStr ''Flows''), (''theme'', JArr [])]) = Inr (JStr [])"
    using publisher_theme_empty_list_raises
      [where dm = "[(''title'', JStr ''Flows''), (''theme'', JArr [])]",
       THEN conjunct2, THEN conjunct2, THEN conjunct2]
    by simp
  from 1 2 3 show ?thesis by blast
qed

section \<open>The description of a search result\<close>

text \<open>
  C10. In an entry of \<open>search_datasets\<close> the description, after the three literal
  replacements, is shown unchanged when it has at most 300 characters and cut to its
  first 297 characters followed by \<open>...\<close> otherwise, so the text shown never has more
  than 300 characters; it is the third line of the entry whenever the description of
  the dataset is a string.
\<close>

theorem search_description_truncated:
  "length (truncate_description d) \<le> 300
   \<and> (length d \<le> 300 \<longrightarrow> truncate_description d = d)
   \<and> (300 < length d \<longrightarrow> truncate_description d = take 297 d @ ''...'')
   \<and> (meta_field dataset ''description'' (JStr ''No description available.'') = Inr (JStr s) \<longrightarrow>
        (\<exists>l1 l2. search_entry lib (i, dataset) =
           Inr [l1, l2, ''   Description: '' @ truncate_description (strip_markup s)]))"
proof -
  have entry: "\<exists>l1 l2. search_entry lib (i, dataset) =
           Inr [l1, l2, ''   Description: '' @ truncate_description (strip_markup s)]"
    if m: "meta_field dataset ''description'' (JStr ''No description available.'') = Inr (JStr s)"
  proof -
    from meta_field_dataset_get [OF m]
    obtain a where a: "py_get dataset ''dataset_id'' (JStr ''N/A'') = Inr a" by blast
    from meta_field_other [OF m]
    obtain t where t: "meta_field dataset ''title'' (JStr ''Untitled Dataset'') = Inr t" by blast
    from meta_field_other [OF m]
    obtain p where p: "meta_field dataset ''publisher'' (JStr ''Unknown Publisher'') = Inr p"
      by blast
    show ?thesis
      by (simp add: search_entry_def a t p m)
  qed
  then show ?thesis
    by (simp add: truncate_description_def)
qed

theorem search_description_truncated_witness:
  "truncate_description ''Hourly demand'' = ''Hourly demand''
   \<and> length (truncate_description (replicate 400 (CHR ''a''))) \<le> 300
   \<and> truncate_description (replicate 400 (CHR ''a'')) = replicate 297 (CHR ''a'') @ ''...''
   \<and> (\<exists>l1 l2. search_entry example_lib
         (1, JObj [(''dataset_id'', JStr ''gold-prices''),
                   (''metas'', JObj [(''default'',
                      JObj [(''description'', JStr ''<p>Gold<br>prices</p>'')])])]) =
         Inr [l1, l2, ''   Description: Gold prices ''])"
proof -
  have 1: "truncate_description ''Hourly demand'' = ''Hourly demand''"
    using search_description_truncated [where d = "''Hourly demand''", THEN conjunct2, THEN conjunct1]
    by simp
  have 2: "length (truncate_description (replicate 400 (CHR ''a''))) \<le> 300"
    using search_description_truncated [where d = "replicate 400 (CHR ''a'')", THEN conjunct1] .
  have 3: "truncate_description (replicate 400 (CHR ''a'')) = replicate 297 (CHR ''a'') @ ''...''"
    using search_description_truncated [where d = "replicate 400 (CHR ''a'')",
        THEN conjunct2, THEN conjunct2, THEN conjunct1]
    by simp
  have m: "meta_field (JObj [(''dataset_id'', JStr ''gold-prices''),
                   (''metas'', JObj [(''default'',
                      JObj [(''description'', JStr ''<p>Gold<br>prices</p>'')])])])
             ''description'' (JStr ''No description available.'') =
           Inr (JStr ''<p>Gold<br>prices</p>'')"
    by (simp add: meta_field_def dict_get_def)
  have s: "truncate_description (strip_markup ''<p>Gold<br>prices</p>'') = ''Gold prices ''"
    by (simp add: truncate_description_def strip_markup_def)
  have 4: "\<exists>l1 l2. search_entry example_lib
         (1, JObj [(''dataset_id'', JStr ''gold-prices''),
                   (''metas'', JObj [(''default'',
                      JObj [(''description'', JStr ''<p>Gold<br>prices</p>'')])])]) =
         Inr [l1, l2, ''   Description: Gold prices '']"
    using search_description_truncated [where lib = example_lib and i = 1,
        THEN conjunct2, THEN conjunct2, THEN conjunct2, THEN mp, OF m]
    by (simp add: s)
  from 1 2 3 4 show ?thesis by blast
qed


section \<open>Markdown tables\<close>

lemma row_values_dict:
  "row_values lib ks (JObj d) = Inr (map (\<lambda>k. display_value lib (dict_get d k (JStr []))) ks)"
  unfolding row_values_def by (rule map_err_map) simp

lemma row_values_Inr_dict:
  assumes "row_values lib ks r = Inr cells" and "j < length ks"
  shows "\<exists>d. r = JObj d"
proof -
  from map_err_Inr_nth [OF assms(1) [unfolded row_values_def]] assms(2)
  have "bind_err (py_get r (ks ! j) (JStr [])) (\<lambda>value. Inr (display_value lib value)) =
        Inr (cells ! j)"
    by blast
  then show ?thesis
    by (auto simp: bind_err_Inr py_get_Inr)
qed

text \<open>
  C6. In \<open>get_dataset_records\<close> the columns of the table are the keys of the first
  record, in their order. A table that is rendered has the header row of these keys, a
  separator row with as many cells as the header, and one row for each record with
  exactly one cell for each column; the cell of a column is the displayed value of the
  record at that key and the empty string when the record has no such key. A table is
  rendered whenever every record is a dict. For the records
  \<open>[{"a": 1, "b": 2}, {"a": 3}]\<close> the rows are \<open>| 1 | 2 |\<close> and \<open>| 3 |  |\<close> under the
  header \<open>| a | b |\<close>.
\<close>

theorem table_columns_uniform:
  "(length first \<le> 10 \<longrightarrow>
      records_body lib (JArr (JObj first # rest)) =
        table_lines lib (map fst first) (JObj first # rest))
   \<and> (table_lines lib record_keys records = Inr ls \<longrightarrow>
        length ls = length records + 2
        \<and> ls ! 0 = newline # table_line record_keys
        \<and> ls ! 1 = table_line (replicate (length record_keys) ''---'')
        \<and> (\<forall>i<length records. \<exists>cells.
              ls ! (i + 2) = table_line cells \<and> length cells = length record_keys \<and>
              (\<forall>j<length record_keys. \<exists>d. records ! i = JObj d \<and>
                 cells ! j = (case map_of d (record_keys ! j) of
                                None \<Rightarrow> [] | Some v \<Rightarrow> display_value lib v))))
   \<and> (list_all (\<lambda>r. \<exists>d. r = JObj d) records \<longrightarrow>
        (\<exists>ls. table_lines lib record_keys records = Inr ls))
   \<and> records_body lib (JArr [JObj [(''a'', JInt 1), (''b'', JInt 2)], JObj [(''a'', JInt 3)]]) =
       Inr [newline # ''| a | b |'', ''| --- | --- |'', ''| 1 | 2 |'', ''| 3 |  |'']"
proof -
  have keys: "records_body lib (JArr (JObj first # rest)) =
        table_lines lib (map fst first) (JObj first # rest)" if "length first \<le> 10"
    using that by (simp add: records_body_def)
  have rows: "length ls = length records + 2
        \<and> ls ! 0 = newline # table_line record_keys
        \<and> ls ! 1 = table_line (replicate (length record_keys) ''---'')
        \<and> (\<forall>i<length records. \<exists>cells.
              ls ! (i + 2) = table_line cells \<and> length cells = length record_keys \<and>
              (\<forall>j<length record_keys. \<exists>d. records ! i = JObj d \<and>
                 cells ! j = (case map_of d (record_keys ! j) of
                                None \<Rightarrow> [] | Some v \<Rightarrow> display_value lib v)))"
    if t: "table_lines lib record_keys records = Inr ls"
  proof -
    from t obtain rws where rws: "map_err (table_row lib record_keys) records = Inr rws"
      and ls: "ls = (newline # table_line record_keys)
                 # table_line (replicate (length record_keys) ''---'') # rws"
      by (auto simp: table_lines_def bind_err_Inr)
    from map_err_Inr_nth [OF rws]
    have len: "length rws = length records"
      and nth: "\<And>i. i < length records \<Longrightarrow> table_row lib record_keys (records ! i) = Inr (rws ! i)"
      by auto
    have row: "\<exists>cells.
              ls ! (i + 2) = table_line cells \<and> length cells = length record_keys \<and>
              (\<forall>j<length record_keys. \<exists>d. records ! i = JObj d \<and>
                 cells ! j = (case map_of d (record_keys ! j) of
                                None \<Rightarrow> [] | Some v \<Rightarrow> display_value lib v))"
      if i: "i < length records" for i
    proof -
      from nth [OF i] obtain cells
        where cells: "row_values lib record_keys (records ! i) = Inr cells"
          and line: "rws ! i = table_line cells"
        by (auto simp: table_row_def bind_err_Inr)
      from map_err_Inr_nth [OF cells [unfolded row_values_def]]
      have clen: "length cells = length record_keys" by simp
      have cell: "\<exists>d. records ! i = JObj d \<and>
                 cells ! j = (case map_of d (record_keys ! j) of
                                None \<Rightarrow> [] | Some v \<Rightarrow> display_value lib v)"
        if j: "j < length record_keys" for j
      proof -
        from row_values_Inr_dict [OF cells j] obtain d where d: "records ! i = JObj d" ..
        from cells d have "cells = map (\<lambda>k. display_value lib (dict_get d k (JStr []))) record_keys"
          by (simp add: row_values_dict)
        with j have "cells ! j = display_value lib (dict_get d (record_keys ! j) (JStr []))"
          by simp
        with d show ?thesis
          by (auto simp: dict_get_def split: option.split)
      qed
      from line clen cell ls show ?thesis by auto
    qed
    from ls len row show ?thesis by simp
  qed
  have total: "\<exists>ls. table_lines lib record_keys records = Inr ls"
    if "list_all (\<lambda>r. \<exists>d. r = JObj d) records"
  proof -
    have "\<exists>rws. map_err (table_row lib record_keys) records = Inr rws"
      using that
      by (induction records) (auto simp: table_row_def row_values_dict)
    then show ?thesis
      by (auto simp: table_lines_def)
  qed
  have example:
    "records_body lib (JArr [JObj [(''a'', JInt 1), (''b'', JInt 2)], JObj [(''a'', JInt 3)]]) =
       Inr [newline # ''| a | b |'', ''| --- | --- |'', ''| 1 | 2 |'', ''| 3 |  |'']"
    by (simp add: records_body_def table_lines_def table_row_def row_values_def table_line_def
        dict_get_def show_int_def show_nat.simps)
  from keys rows total example show ?thesis by blast
qed

theorem table_columns_uniform_witness:
  "table_lines example_lib [''a'', ''b'']
      [JObj [(''a'', JInt 1), (''b'', JInt 2)], JObj [(''a'', JInt 3)]] =
     Inr [newline # ''| a | b |'', ''| --- | --- |'', ''| 1 | 2 |'', ''| 3 |  |'']
   \<and> records_body example_lib
       (JArr [JObj [(''a'', JInt 1), (''b'', JInt 2)], JObj [(''a'', JInt 3)]]) =
     Inr [newline # ''| a | b |'', ''| --- | --- |'', ''| 1 | 2 |'', ''| 3 |  |'']
   \<and> length [newline # ''| a | b |'', ''| --- | --- |'', ''| 1 | 2 |'', ''| 3 |  |''] = 2 + 2
   \<and> (\<exists>cells. ''| 3 |  |'' = table_line cells \<and> length cells = 2 \<and> cells ! 1 = [])"
proof -
  let ?r1 = "JObj [(''a'', JInt 1), (''b'', JInt 2)]"
  let ?r2 = "JObj [(''a'', JInt 3)]"
  let ?ls = "[newline # ''| a | b |'', ''| --- | --- |'', ''| 1 | 2 |'', ''| 3 |  |'']"
  note inst = table_columns_uniform [where lib = example_lib and first = "[(''a'', JInt 1), (''b'', JInt 2)]"
      and rest = "[?r2]" and record_keys = "[''a'', ''b'']" and records = "[?r1, ?r2]" and ls = ?ls]
  have ex: "records_body example_lib (JArr [?r1, ?r2]) = Inr ?ls"
    using inst by blast
  have small: "length [(''a'', JInt 1), (''b'', JInt 2)] \<le> 10" by simp
  from inst small have "records_body example_lib (JArr [?r1, ?r2]) =
      table_lines example_lib (map fst [(''a'', JInt 1), (''b'', JInt 2)]) [?r1, ?r2]"
    by blast
  with ex have t: "table_lines example_lib [''a'', ''b''] [?r1, ?r2] = Inr ?ls"
    by simp
  from inst t have rows: "\<forall>i<length [?r1, ?r2]. \<exists>cells.
              ?ls ! (i + 2) = table_line cells \<and> length cells = length [''a'', ''b''] \<and>
              (\<forall>j<length [''a'', ''b'']. \<exists>d. [?r1, ?r2] ! i = JObj d \<and>
                 cells ! j = (case map_of d ([''a'', ''b''] ! j) of
                                None \<Rightarrow> [] | Some v \<Rightarrow> display_value example_lib v))"
    by blast
  have lt: "(1::nat) < length [?r1, ?r2]" by simp
  from rows [THEN spec, of 1, THEN mp, OF lt]
  obtain cells where c1: "?ls ! (1 + 2) = table_line cells"
    and c2: "length cells = length [''a'', ''b'']"
    and c3: "\<forall>j<length [''a'', ''b'']. \<exists>d. [?r1, ?r2] ! 1 = JObj d \<and>
                 cells ! j = (case map_of d ([''a'', ''b''] ! j) of
                                None \<Rightarrow> [] | Some v \<Rightarrow> display_value example_lib v)"
    by blast
  have lt2: "(1::nat) < length [''a'', ''b'']" by simp
  from c3 [THEN spec, of 1, THEN mp, OF lt2]
  obtain d where d: "[?r1, ?r2] ! 1 = JObj d"
    and cj: "cells ! 1 = (case map_of d ([''a'', ''b''] ! 1) of
                                None \<Rightarrow> [] | Some v \<Rightarrow> display_value example_lib v)"
    by blast
  from d have "d = [(''a'', JInt 3)]" by simp
  with cj have c4: "cells ! 1 = []" by simp
  from c1 have c5: "''| 3 |  |'' = table_line cells" by simp
  from c2 have c6: "length cells = 2" by simp
  from c4 c5 c6 have 4: "\<exists>cells. ''| 3 |  |'' = table_line cells \<and> length cells = 2 \<and> cells ! 1 = []"
    by blast
  from t ex 4 show ?thesis by simp
qed

section \<open>Table or listing\<close>





section \<open>Facet values\<close>





section \<open>The check of the field\<close>

lemma find_field_first:
  assumes "list_all (other_field field_name) before"
    and "map_of f ''name'' = Some (JStr field_name)"
  shows "find_field field_name (before @ JObj f # after) = Inr (Some (JObj f))"
  using assms
proof (induction before)
  case Nil
  then show ?case by (simp add: dict_get_def)
next
  case (Cons x xs)
  from Cons.prems(1) obtain d where "x = JObj d" "dict_get d ''name'' JNull \<noteq> JStr field_name"
    by (cases x) (auto simp: other_field_def)
  with Cons show ?case by simp
qed

lemma find_field_absent:
  assumes "list_all (other_field field_name) fs"
  shows "find_field field_name fs = Inr None"
  using assms
proof (induction fs)
  case Nil
  then show ?case by simp
next
  case (Cons x xs)
  from Cons.prems obtain d where "x = JObj d" "dict_get d ''name'' JNull \<noteq> JStr field_name"
    by (cases x) (auto simp: other_field_def)
  with Cons show ?case by simp
qed

lemma validate_wrong_type:
  assumes "dict_get dataset_info ''fields'' (JArr []) = JArr (before @ JObj f # after)"
    and "list_all (other_field field_name) before"
    and "map_of f ''name'' = Some (JStr field_name)"
    and "dict_get f ''type'' (JStr []) \<notin> set accepted"
  shows "validate_field lib accepted kind dataset_id field_name (Inr dataset_info) =
           Rejected (wrong_type_message lib kind field_name (dict_get f ''type'' (JStr [])))"
proof -
  from assms(3) have "f \<noteq> []" by auto
  with assms show ?thesis
    by (simp add: validate_field_def check_field_def find_field_first)
qed

lemma validate_absent:
  assumes "dict_get dataset_info ''fields'' (JArr []) = JArr fs"
    and "list_all (other_field field_name) fs"
  shows "validate_field lib accepted kind dataset_id field_name (Inr dataset_info) =
           Rejected (not_found_message dataset_id field_name)"
  using assms by (simp add: validate_field_def check_field_def find_field_absent)

text \<open>
  C7. The numeric, text and date analyses fetch the dataset first. When the first field
  of the schema with the given name has the type \<open>geo_point_2d\<close>, the numeric analysis
  returns \<open>Field '<name>' is not a numeric field (type: geo_point_2d).\<close> and the only
  request it has issued is the fetch of the dataset. In general, when the type of that
  field is not one of the types of the analysis, each of the three returns the message
  that names the type, and when no field of the schema has the name, each returns
  \<open>Field '<name>' not found in dataset '<id>'.\<close>; in both cases no request follows the
  fetch of the dataset.
\<close>

theorem field_analysis_fails_fast:
  assumes "api (Request (''/catalog/datasets/'' @ dataset_id) None) = Inr dataset_info"
  shows
    "(dict_get dataset_info ''fields'' (JArr []) = JArr (before @ JObj f # after) \<and>
      list_all (other_field field_name) before \<and>
      map_of f ''name'' = Some (JStr field_name) \<and>
      map_of f ''type'' = Some (JStr ''geo_point_2d'') \<longrightarrow>
        analyze_numeric_field lib api dataset_id field_name lg =
          (Inr (''Field '' @ [CHR 0x27] @ field_name @ [CHR 0x27] @
                '' is not a numeric field (type: geo_point_2d).''),
           lg @ [Request (''/catalog/datasets/'' @ dataset_id) None]))
     \<and> (dict_get dataset_info ''fields'' (JArr []) = JArr (before @ JObj f # after) \<and>
      list_all (other_field field_name) before \<and>
      map_of f ''name'' = Some (JStr field_name) \<longrightarrow>
        (dict_get f ''type'' (JStr []) \<notin> set numeric_types \<longrightarrow>
           analyze_numeric_field lib api dataset_id field_name lg =
             (Inr (wrong_type_message lib ''numeric'' field_name (dict_get f ''type'' (JStr []))),
              lg @ [Request (''/catalog/datasets/'' @ dataset_id) None])) \<and>
        (dict_get f ''type'' (JStr []) \<notin> set text_types \<longrightarrow>
           analyze_text_field lib api dataset_id field_name limit lg =
             (Inr (wrong_type_message lib ''text'' field_name (dict_get f ''type'' (JStr []))),
              lg @ [Request (''/catalog/datasets/'' @ dataset_id) None])) \<and>
        (dict_get f ''type'' (JStr []) \<notin> set date_types \<longrightarrow>
           analyze_date_field lib api dataset_id field_name lg =
             (Inr (wrong_type_message lib ''date'' field_name (dict_get f ''type'' (JStr []))),
              lg @ [Request (''/catalog/datasets/'' @ dataset_id) None])))
     \<and> (dict_get dataset_info ''fields'' (JArr []) = JArr fs \<and>
      list_all (other_field field_name) fs \<longrightarrow>
        analyze_numeric_field lib api dataset_id field_name lg =
          (Inr (not_found_message dataset_id field_name),
           lg @ [Request (''/catalog/datasets/'' @ dataset_id) None]) \<and>
        analyze_text_field lib api dataset_id field_name limit lg =
          (Inr (not_found_message dataset_id field_name),
           lg @ [Request (''/catalog/datasets/'' @ dataset_id) None]) \<and>
        analyze_date_field lib api dataset_id field_name lg =
          (Inr (not_found_message dataset_id field_name),
           lg @ [Request (''/catalog/datasets/'' @ dataset_id) None]))"
proof -
  have gd: "get_dataset api dataset_id lg =
      (Inr dataset_info, lg @ [Request (''/catalog/datasets/'' @ dataset_id) None])"
    by (simp only: get_dataset_def call_def assms)
  have wrong: "analyze_numeric_field lib api dataset_id field_name lg =
             (Inr (wrong_type_message lib ''numeric'' field_name (dict_get f ''type'' (JStr []))),
              lg @ [Request (''/catalog/datasets/'' @ dataset_id) None])"
    if "dict_get dataset_info ''fields'' (JArr []) = JArr (before @ JObj f # after)"
      "list_all (other_field field_name) before" "map_of f ''name'' = Some (JStr field_name)"
      "dict_get f ''type'' (JStr []) \<notin> set numeric_types" for f
    using validate_wrong_type [OF that, of lib "''numeric''" dataset_id]
    by (simp add: analyze_numeric_field_def gd)
  have wrong_text: "analyze_text_field lib api dataset_id field_name limit lg =
             (Inr (wrong_type_message lib ''text'' field_name (dict_get f ''type'' (JStr []))),
              lg @ [Request (''/catalog/datasets/'' @ dataset_id) None])"
    if "dict_get dataset_info ''fields'' (JArr []) = JArr (before @ JObj f # after)"
      "list_all (other_field field_name) before" "map_of f ''name'' = Some (JStr field_name)"
      "dict_get f ''type'' (JStr []) \<notin> set text_types"
    using validate_wrong_type [OF that, of lib "''text''" dataset_id]
    by (simp add: analyze_text_field_def gd)
  have wrong_date: "analyze_date_field lib api dataset_id field_name lg =
             (Inr (wrong_type_message lib ''date'' field_name (dict_get f ''type'' (JStr []))),
              lg @ [Request (''/catalog/datasets/'' @ dataset_id) None])"
    if "dict_get dataset_info ''fields'' (JArr []) = JArr (before @ JObj f # after)"
      "list_all (other_field field_name) before" "map_of f ''name'' = Some (JStr field_name)"
      "dict_get f ''type'' (JStr []) \<notin> set date_types"
    using validate_wrong_type [OF that, of lib "''date''" dataset_id]
    by (simp add: analyze_date_field_def gd)
  have geo: "analyze_numeric_field lib api dataset_id field_name lg =
          (Inr (''Field '' @ [CHR 0x27] @ field_name @ [CHR 0x27] @
                '' is not a numeric field (type: geo_point_2d).''),
           lg @ [Request (''/catalog/datasets/'' @ dataset_id) None])"
    if a: "dict_get dataset_info ''fields'' (JArr []) = JArr (before @ JObj f # after)"
      "list_all (other_field field_name) before" "map_of f ''name'' = Some (JStr field_name)"
      and t: "map_of f ''type'' = Some (JStr ''geo_point_2d'')"
  proof -
    from t have ty: "dict_get f ''type'' (JStr []) = JStr ''geo_point_2d''"
      by (simp add: dict_get_def)
    then have "dict_get f ''type'' (JStr []) \<notin> set numeric_types"
      by (simp add: numeric_types_def)
    from wrong [OF a this] show ?thesis
      by (simp add: ty wrong_type_message_def)
  qed
  have absent: "analyze_numeric_field lib api dataset_id field_name lg =
          (Inr (not_found_message dataset_id field_name),
           lg @ [Request (''/catalog/datasets/'' @ dataset_id) None]) \<and>
        analyze_text_field lib api dataset_id field_name limit lg =
          (Inr (not_found_message dataset_id field_name),
           lg @ [Request (''/catalog/datasets/'' @ dataset_id) None]) \<and>
        analyze_date_field lib api dataset_id field_name lg =
          (Inr (not_found_message dataset_id field_name),
           lg @ [Request (''/catalog/datasets/'' @ dataset_id) None])"
    if a: "dict_get dataset_info ''fields'' (JArr []) = JArr fs"
      "list_all (other_field field_name) fs"
    using validate_absent [OF a, of lib _ _ dataset_id]
    by (simp add: analyze_numeric_field_def analyze_text_field_def analyze_date_field_def gd)
  from wrong wrong_text wrong_date geo absent show ?thesis by blast
qed

theorem field_analysis_fails_fast_witness:
  "analyze_numeric_field example_lib (\<lambda>rq. Inr station_schema) ''stations'' ''location'' [] =
     (Inr (''Field '' @ [CHR 0x27] @ ''location'' @ [CHR 0x27] @
           '' is not a numeric field (type: geo_point_2d).''),
      [Request ''/catalog/datasets/stations'' None])
   \<and> analyze_text_field example_lib (\<lambda>rq. Inr station_schema) ''stations'' ''location'' 20 [] =
     (Inr (''Field '' @ [CHR 0x27] @ ''location'' @ [CHR 0x27] @
           '' is not a text field (type: geo_point_2d).''),
      [Request ''/catalog/datasets/stations'' None])
   \<and> analyze_date_field example_lib (\<lambda>rq. Inr station_schema) ''stations'' ''location'' [] =
     (Inr (''Field '' @ [CHR 0x27] @ ''location'' @ [CHR 0x27] @
           '' is not a date field (type: geo_point_2d).''),
      [Request ''/catalog/datasets/stations'' None])
   \<and> analyze_numeric_field example_lib (\<lambda>rq. Inr station_schema) ''stations'' ''altitude'' [] =
     (Inr (''Field '' @ [CHR 0x27] @ ''altitude'' @ [CHR 0x27] @ '' not found in dataset '' @
           [CHR 0x27] @ ''stations'' @ [CHR 0x27] @ ''.''),
      [Request ''/catalog/datasets/stations'' None])
   \<and> analyze_text_field example_lib (\<lambda>rq. Inr station_schema) ''stations'' ''altitude'' 20 [] =
     (Inr (''Field '' @ [CHR 0x27] @ ''altitude'' @ [CHR 0x27] @ '' not found in dataset '' @
           [CHR 0x27] @ ''stations'' @ [CHR 0x27] @ ''.''),
      [Request ''/catalog/datasets/stations'' None])
   \<and> analyze_date_field example_lib (\<lambda>rq. Inr station_schema) ''stations'' ''altitude'' [] =
     (Inr (''Field '' @ [CHR 0x27] @ ''altitude'' @ [CHR 0x27] @ '' not found in dataset '' @
           [CHR 0x27] @ ''stations'' @ [CHR 0x27] @ ''.''),
      [Request ''/catalog/datasets/stations'' None])"
proof -
  let ?f1 = "JObj [(''name'', JStr ''id''), (''type'', JStr ''int'')]"
  let ?f2 = "[(''name'', JStr ''location''), (''label'', JStr ''Location''),
                (''type'', JStr ''geo_point_2d'')]"
  have api: "(\<lambda>rq. Inr station_schema) (Request (''/catalog/datasets/'' @ ''stations'') None) =
      Inr station_schema"
    by simp
  have fs: "dict_get station_schema ''fields'' (JArr []) = JArr ([?f1] @ JObj ?f2 # [])"
    by (simp add: station_schema_def dict_get_def)
  have fs': "dict_get station_schema ''fields'' (JArr []) = JArr [?f1, JObj ?f2]"
    by (simp add: station_schema_def dict_get_def)
  have o1: "list_all (other_field ''location'') [?f1]"
    by (simp add: other_field_def dict_get_def)
  have o2: "list_all (other_field ''altitude'') [?f1, JObj ?f2]"
    by (simp add: other_field_def dict_get_def)
  have nm: "map_of ?f2 ''name'' = Some (JStr ''location'')" by simp
  have ty: "map_of ?f2 ''type'' = Some (JStr ''geo_point_2d'')" by simp
  have t: "dict_get ?f2 ''type'' (JStr []) = JStr ''geo_point_2d''"
    by (simp add: dict_get_def)
  note main = field_analysis_fails_fast [OF api, where lib = example_lib and lg = "[]"
      and limit = 20]
  have 1: "analyze_numeric_field example_lib (\<lambda>rq. Inr station_schema) ''stations'' ''location'' [] =
     (Inr (''Field '' @ [CHR 0x27] @ ''location'' @ [CHR 0x27] @
           '' is not a numeric field (type: geo_point_2d).''),
      [Request ''/catalog/datasets/stations'' None])"
    using main [where field_name = "''location''", THEN conjunct1, THEN mp,
        OF conjI [OF fs conjI [OF o1 conjI [OF nm ty]]]]
    by simp
  note wrong = main [where field_name = "''location''", THEN conjunct2, THEN conjunct1, THEN mp,
        OF conjI [OF fs conjI [OF o1 nm]]]
  have 2: "analyze_text_field example_lib (\<lambda>rq. Inr station_schema) ''stations'' ''location'' 20 [] =
     (Inr (''Field '' @ [CHR 0x27] @ ''location'' @ [CHR 0x27] @
           '' is not a text field (type: geo_point_2d).''),
      [Request ''/catalog/datasets/stations'' None])"
    using wrong [THEN conjunct2, THEN conjunct1]
    by (simp add: t text_types_def wrong_type_message_def)
  have 3: "analyze_date_field example_lib (\<lambda>rq. Inr station_schema) ''stations'' ''location'' [] =
     (Inr (''Field '' @ [CHR 0x27] @ ''location'' @ [CHR 0x27] @
           '' is not a date field (type: geo_point_2d).''),
      [Request ''/catalog/datasets/stations'' None])"
    using wrong [THEN conjunct2, THEN conjunct2]
    by (simp add: t date_types_def wrong_type_message_def)
  note absent = main [where field_name = "''altitude''", THEN conjunct2, THEN conjunct2, THEN mp,
        OF conjI [OF fs' o2]]
  from absent have 4: "analyze_numeric_field example_lib (\<lambda>rq. Inr station_schema) ''stations'' ''altitude'' [] =
     (Inr (''Field '' @ [CHR 0x27] @ ''altitude'' @ [CHR 0x27] @ '' not found in dataset '' @
           [CHR 0x27] @ ''stations'' @ [CHR 0x27] @ ''.''),
      [Request ''/catalog/datasets/stations'' None])"
    by (simp add: not_found_message_def)
  from absent have 5: "analyze_text_field example_lib (\<lambda>rq. Inr station_schema) ''stations'' ''altitude'' 20 [] =
     (Inr (''Field '' @ [CHR 0x27] @ ''altitude'' @ [CHR 0x27] @ '' not found in dataset '' @
           [CHR 0x27] @ ''stations'' @ [CHR 0x27] @ ''.''),
      [Request ''/catalog/datasets/stations'' None])"
    by (simp add: not_found_message_def)
  from absent have 6: "analyze_date_field example_lib (\<lambda>rq. Inr station_schema) ''stations'' ''altitude'' [] =
     (Inr (''Field '' @ [CHR 0x27] @ ''altitude'' @ [CHR 0x27] @ '' not found in dataset '' @
           [CHR 0x27] @ ''stations'' @ [CHR 0x27] @ ''.''),
      [Request ''/catalog/datasets/stations'' None])"
    by (simp add: not_found_message_def)
  from 1 2 3 4 5 6 show ?thesis by blast
qed

section \<open>The distribution of a numeric field\<close>







section \<open>Percentages\<close>




end
